theory Spec2Isabelle
  imports Main "HOL-Library.Word"
begin

section \<open>The volume batch cache of the draw module\<close>

text \<open>
  This theory embeds \<^verbatim>\<open>source/blender/draw/intern/draw_cache_impl_volume.cc\<close>:
  the per-volume cache of GPU resources (3D textures of grids, the wireframe batch, the
  selection surface), its validity gate and its dirty tag.

  Pointers are handles: \<open>None\<close> is the null pointer. The GPU module, the guarded
  allocator and the volume kernel are not part of the embedded file; what the cache
  calls of them acts on an explicit \<open>World\<close>: the tables of live GPU objects and of
  live heap blocks, and the logs of the calls into the volume kernel, of the blocks
  freed and of the lines printed.
\<close>

subsection \<open>Values\<close>

type_synonym handle = nat

text \<open>A float is its 32-bit pattern: the cache stores and copies floats, it never
  computes with them (the one matrix inversion is the math library's).\<close>

type_synonym float = "32 word"
type_synonym float3 = "float \<times> float \<times> float"
type_synonym float4x4 = "float list"

definition float4x4_zero :: float4x4 where
  "float4x4_zero = replicate 16 0"

subsection \<open>GPU objects\<close>

datatype TextureFormat = SFLOAT_16 | SFLOAT_16_16_16

datatype GPUSamplerExtendMode =
    GPU_SAMPLER_EXTEND_MODE_EXTEND
  | GPU_SAMPLER_EXTEND_MODE_REPEAT
  | GPU_SAMPLER_EXTEND_MODE_MIRRORED_REPEAT
  | GPU_SAMPLER_EXTEND_MODE_CLAMP_TO_BORDER

datatype GPUPrimType = GPU_PRIM_POINTS | GPU_PRIM_LINES | GPU_PRIM_TRIS

datatype VertAttrType = SFLOAT_32 | SFLOAT_32_32_32 | SNORM_10_10_10_2 | SNORM_16_16_16_16

datatype NormalPacking = PackedNormal | Short4

datatype AttrData =
    Attr_float3 "float3 list"
  | Attr_normal_stride0 NormalPacking float3
  | Attr_wiredata_fill

record Texture =
  tex_name :: string
  tex_size :: "int \<times> int \<times> int"
  tex_mip_len :: int
  tex_format :: TextureFormat
  tex_data :: "float list"
  tex_swizzle :: string
  tex_extend_mode :: GPUSamplerExtendMode

type_synonym GPUVertFormat = "(string \<times> VertAttrType) list"

record VertBuf =
  vbo_format :: GPUVertFormat
  vertex_len :: nat
  vbo_attrs :: "(nat \<times> AttrData) list"

record IndexBuf =
  ibo_prim_type :: GPUPrimType
  ibo_indices :: "32 word list"

record Batch =
  batch_prim_type :: GPUPrimType
  batch_verts :: "(handle \<times> bool) list"
  batch_elem :: "handle option"
  batch_owns_index :: bool

subsection \<open>The world around the cache\<close>

datatype BackendCall =
    Call_volume_load
  | Call_grid_active_get
  | Call_grid_dense_floats string
  | Call_grid_wireframe string
  | Call_grid_selection_surface string

record World =
  textures :: "handle \<rightharpoonup> Texture"
  vertbufs :: "handle \<rightharpoonup> VertBuf"
  indexbufs :: "handle \<rightharpoonup> IndexBuf"
  batches :: "handle \<rightharpoonup> Batch"
  guarded_mem :: "handle \<rightharpoonup> float list"
  next_handle :: handle
  backend_calls :: "BackendCall list"
  mem_frees :: "handle list"
  stdout :: "string list"

subsection \<open>The cache\<close>

record DRWVolumeGrid =
  name :: string
  texture :: "handle option"
  texture_to_object :: float4x4
  object_to_texture :: float4x4

record VolumeBatchCache =
  grids :: "DRWVolumeGrid list"
  face_wire_pos_nor_in_order :: "handle option"
  face_wire_batch :: "handle option"
  selection_surface :: "handle option"
  is_dirty :: bool

text \<open>The values of \<^verbatim>\<open>volume->display.wireframe_type\<close>, an enum of
  \<^verbatim>\<open>DNA_volume_types.h\<close>.\<close>

datatype VolumeWireframeType =
    VOLUME_WIREFRAME_NONE
  | VOLUME_WIREFRAME_BOUNDS
  | VOLUME_WIREFRAME_BOXES
  | VOLUME_WIREFRAME_POINTS

record Volume =
  batch_cache :: "VolumeBatchCache option"
  display_wireframe_type :: VolumeWireframeType

text \<open>What \<^verbatim>\<open>MEM_callocN\<close> and \<^verbatim>\<open>memset(cache, 0, sizeof(*cache))\<close> leave:
  every pointer null, every list empty, every flag false.\<close>

definition VolumeBatchCache_zero :: VolumeBatchCache where
  "VolumeBatchCache_zero =
     \<lparr>grids = [], face_wire_pos_nor_in_order = None, face_wire_batch = None,
      selection_surface = None, is_dirty = False\<rparr>"

definition DRWVolumeGrid_zero :: DRWVolumeGrid where
  "DRWVolumeGrid_zero =
     \<lparr>name = [], texture = None, texture_to_object = float4x4_zero,
      object_to_texture = float4x4_zero\<rparr>"

subsection \<open>Releasing GPU objects\<close>

definition GPU_texture_free :: "handle \<Rightarrow> World \<Rightarrow> World" where
  "GPU_texture_free t w = w\<lparr>textures := (textures w)(t := None)\<rparr>"

definition GPU_vertbuf_discard :: "handle \<Rightarrow> World \<Rightarrow> World" where
  "GPU_vertbuf_discard vbo w = w\<lparr>vertbufs := (vertbufs w)(vbo := None)\<rparr>"

definition GPU_indexbuf_discard :: "handle \<Rightarrow> World \<Rightarrow> World" where
  "GPU_indexbuf_discard ibo w = w\<lparr>indexbufs := (indexbufs w)(ibo := None)\<rparr>"

text \<open>Discarding a batch discards the buffers it owns, then the batch.\<close>

definition discard_owned_vbo :: "handle \<times> bool \<Rightarrow> World \<Rightarrow> World" where
  "discard_owned_vbo p w = (if snd p then GPU_vertbuf_discard (fst p) w else w)"

definition GPU_batch_discard :: "handle \<Rightarrow> World \<Rightarrow> World" where
  "GPU_batch_discard b w =
     (case batches w b of
        None \<Rightarrow> w
      | Some bt \<Rightarrow>
          let w1 = fold discard_owned_vbo (batch_verts bt) w;
              w2 = (case batch_elem bt of
                      None \<Rightarrow> w1
                    | Some ibo \<Rightarrow> if batch_owns_index bt then GPU_indexbuf_discard ibo w1 else w1)
          in w2\<lparr>batches := (batches w2)(b := None)\<rparr>)"

text \<open>The \<^verbatim>\<open>*_SAFE\<close> macros act on a non-null pointer only (and null it, which
  \<open>volume_batch_cache_clear\<close> writes out below).\<close>

definition GPU_TEXTURE_FREE_SAFE :: "handle option \<Rightarrow> World \<Rightarrow> World" where
  "GPU_TEXTURE_FREE_SAFE p w = (case p of None \<Rightarrow> w | Some t \<Rightarrow> GPU_texture_free t w)"

definition GPU_VERTBUF_DISCARD_SAFE :: "handle option \<Rightarrow> World \<Rightarrow> World" where
  "GPU_VERTBUF_DISCARD_SAFE p w = (case p of None \<Rightarrow> w | Some vbo \<Rightarrow> GPU_vertbuf_discard vbo w)"

definition GPU_BATCH_DISCARD_SAFE :: "handle option \<Rightarrow> World \<Rightarrow> World" where
  "GPU_BATCH_DISCARD_SAFE p w = (case p of None \<Rightarrow> w | Some b \<Rightarrow> GPU_batch_discard b w)"

subsection \<open>Cache management\<close>

definition volume_batch_cache_valid :: "Volume \<Rightarrow> bool" where
  "volume_batch_cache_valid volume =
     (case batch_cache volume of None \<Rightarrow> False | Some cache \<Rightarrow> is_dirty cache = False)"

definition volume_batch_cache_init :: "Volume \<Rightarrow> Volume" where
  "volume_batch_cache_init volume =
     (let cache = (case batch_cache volume of
                     None \<Rightarrow> VolumeBatchCache_zero
                   | Some _ \<Rightarrow> VolumeBatchCache_zero)
      in volume\<lparr>batch_cache := Some (cache\<lparr>is_dirty := False\<rparr>)\<rparr>)"

text \<open>The loop over the grids frees each texture (and each name, a heap string that
  lives inside the entry here); \<^verbatim>\<open>BLI_freelistN\<close> then empties the list.\<close>

definition volume_batch_cache_clear :: "Volume \<times> World \<Rightarrow> Volume \<times> World" where
  "volume_batch_cache_clear s =
     (let volume = fst s; w = snd s in
      case batch_cache volume of
        None \<Rightarrow> (volume, w)
      | Some cache \<Rightarrow>
          let w1 = fold (\<lambda>grid. GPU_TEXTURE_FREE_SAFE (texture grid)) (grids cache) w;
              w2 = GPU_VERTBUF_DISCARD_SAFE (face_wire_pos_nor_in_order cache) w1;
              w3 = GPU_BATCH_DISCARD_SAFE (face_wire_batch cache) w2;
              w4 = GPU_BATCH_DISCARD_SAFE (selection_surface cache) w3
          in (volume\<lparr>batch_cache :=
                Some (cache\<lparr>grids := [], face_wire_pos_nor_in_order := None,
                            face_wire_batch := None, selection_surface := None\<rparr>)\<rparr>, w4))"

definition DRW_volume_batch_cache_validate :: "Volume \<times> World \<Rightarrow> Volume \<times> World" where
  "DRW_volume_batch_cache_validate s =
     (if \<not> volume_batch_cache_valid (fst s)
      then (let s1 = volume_batch_cache_clear s in (volume_batch_cache_init (fst s1), snd s1))
      else s)"

definition DRW_volume_batch_cache_free :: "Volume \<times> World \<Rightarrow> Volume \<times> World" where
  "DRW_volume_batch_cache_free s =
     (let s1 = volume_batch_cache_clear s in ((fst s1)\<lparr>batch_cache := None\<rparr>, snd s1))"

text \<open>The one reason code, an enum constant of \<^verbatim>\<open>BKE_volume.hh\<close>.\<close>

definition BKE_VOLUME_BATCH_DIRTY_ALL :: int where
  "BKE_VOLUME_BATCH_DIRTY_ALL = 0"

datatype error = Assertion_failed

text \<open>Modelled from the spec: \<^verbatim>\<open>BLI_assert\<close>, a macro of the utility library.
  A failed assertion is a programming error that stops the call; it is the \<open>Inl\<close>
  result.\<close>

definition DRW_volume_batch_cache_dirty_tag :: "Volume \<Rightarrow> int \<Rightarrow> error + Volume" where
  "DRW_volume_batch_cache_dirty_tag volume mode =
     (case batch_cache volume of
        None \<Rightarrow> Inr volume
      | Some cache \<Rightarrow>
          if mode = BKE_VOLUME_BATCH_DIRTY_ALL
          then Inr (volume\<lparr>batch_cache := Some (cache\<lparr>is_dirty := True\<rparr>)\<rparr>)
          else Inl Assertion_failed)"

subsection \<open>The volume kernel and the GPU module, as the cache calls them\<close>

text \<open>A grid, as far as the cache reads it: \<^verbatim>\<open>bke::volume_grid::get_name\<close> and
  \<^verbatim>\<open>get_channels_num(get_type(grid))\<close>.\<close>

record VolumeGridData =
  get_name :: string
  get_channels_num :: nat

record DenseFloatVolumeGrid =
  resolution :: "int \<times> int \<times> int"
  dense_texture_to_object :: float4x4
  voxels :: handle

text \<open>
  What the collaborators answer is a parameter of the model, fixed over a run:
  the active grid of the volume, the dense form of a grid (resolution, transform, voxel
  values) when the kernel can produce one, the vertices and edges (or triangles) that a
  tree traversal hands to its callback, whether the device creates a 3D texture of a given
  resolution, the high-quality normals setting (scene flag or GPU workaround), and
  \<^verbatim>\<open>math::invert\<close>.
\<close>

record Backend =
  grid_active :: "VolumeGridData option"
  dense_floats :: "VolumeGridData \<Rightarrow> ((int \<times> int \<times> int) \<times> float4x4 \<times> float list) option"
  wireframe :: "VolumeGridData \<Rightarrow> float3 list \<times> (int \<times> int) list"
  selection_surface_of :: "VolumeGridData \<Rightarrow> float3 list \<times> (int \<times> int \<times> int) list"
  texture_3d_fails :: "int \<times> int \<times> int \<Rightarrow> bool"
  do_hq_normals :: bool
  invert :: "float4x4 \<Rightarrow> float4x4"

definition new_handle :: "World \<Rightarrow> handle \<times> World" where
  "new_handle w = (next_handle w, w\<lparr>next_handle := Suc (next_handle w)\<rparr>)"

definition log_call :: "BackendCall \<Rightarrow> World \<Rightarrow> World" where
  "log_call c w = w\<lparr>backend_calls := backend_calls w @ [c]\<rparr>"

definition BKE_volume_load :: "World \<Rightarrow> World" where
  "BKE_volume_load w = log_call Call_volume_load w"

definition BKE_volume_grid_active_get_for_read ::
  "Backend \<Rightarrow> World \<Rightarrow> VolumeGridData option \<times> World" where
  "BKE_volume_grid_active_get_for_read be w = (grid_active be, log_call Call_grid_active_get w)"

text \<open>The kernel allocates the voxel array in guarded memory and hands it to the caller,
  who owns it from then on.\<close>

definition BKE_volume_grid_dense_floats ::
  "Backend \<Rightarrow> VolumeGridData \<Rightarrow> World \<Rightarrow> DenseFloatVolumeGrid option \<times> World" where
  "BKE_volume_grid_dense_floats be grid w =
     (let w1 = log_call (Call_grid_dense_floats (get_name grid)) w in
      case dense_floats be grid of
        None \<Rightarrow> (None, w1)
      | Some d \<Rightarrow>
          let hw = new_handle w1; h = fst hw; w2 = snd hw in
          (Some \<lparr>resolution = fst d, dense_texture_to_object = fst (snd d), voxels = h\<rparr>,
           w2\<lparr>guarded_mem := (guarded_mem w2)(h \<mapsto> snd (snd d))\<rparr>))"

definition MEM_freeN :: "handle \<Rightarrow> World \<Rightarrow> World" where
  "MEM_freeN h w = w\<lparr>guarded_mem := (guarded_mem w)(h := None), mem_frees := mem_frees w @ [h]\<rparr>"

definition BKE_volume_dense_float_grid_clear :: "DenseFloatVolumeGrid \<Rightarrow> World \<Rightarrow> World" where
  "BKE_volume_dense_float_grid_clear dense_grid w = MEM_freeN (voxels dense_grid) w"

definition printf :: "string \<Rightarrow> World \<Rightarrow> World" where
  "printf msg w = w\<lparr>stdout := stdout w @ [msg]\<rparr>"

text \<open>A new texture samples with the identity swizzle and the extend mode; its data are
  the floats of the block it is created from.\<close>

definition GPU_texture_create_3d ::
  "Backend \<Rightarrow> string \<Rightarrow> int \<times> int \<times> int \<Rightarrow> int \<Rightarrow> TextureFormat \<Rightarrow> handle \<Rightarrow> World
     \<Rightarrow> handle option \<times> World" where
  "GPU_texture_create_3d be nm res mips format data w =
     (if texture_3d_fails be res then (None, w)
      else let hw = new_handle w; h = fst hw; w1 = snd hw in
        (Some h,
         w1\<lparr>textures := (textures w1)(h \<mapsto>
              \<lparr>tex_name = nm, tex_size = res, tex_mip_len = mips, tex_format = format,
               tex_data = (case guarded_mem w data of None \<Rightarrow> [] | Some fs \<Rightarrow> fs),
               tex_swizzle = ''rgba'',
               tex_extend_mode = GPU_SAMPLER_EXTEND_MODE_EXTEND\<rparr>)\<rparr>))"

definition GPU_texture_swizzle_set :: "handle \<Rightarrow> string \<Rightarrow> World \<Rightarrow> World" where
  "GPU_texture_swizzle_set t sw w =
     (case textures w t of
        None \<Rightarrow> w
      | Some tx \<Rightarrow> w\<lparr>textures := (textures w)(t \<mapsto> tx\<lparr>tex_swizzle := sw\<rparr>)\<rparr>)"

definition GPU_texture_extend_mode :: "handle \<Rightarrow> GPUSamplerExtendMode \<Rightarrow> World \<Rightarrow> World" where
  "GPU_texture_extend_mode t m w =
     (case textures w t of
        None \<Rightarrow> w
      | Some tx \<Rightarrow> w\<lparr>textures := (textures w)(t \<mapsto> tx\<lparr>tex_extend_mode := m\<rparr>)\<rparr>)"

subsection \<open>The grid materializer\<close>

text \<open>\<^verbatim>\<open>std::string::c_str\<close>: the characters before the first NUL are all that a
  reader of the C string sees. A \<^verbatim>\<open>std::string\<close> may hold NUL characters; a
  \<^verbatim>\<open>char *\<close> string cannot.\<close>

definition c_str :: "string \<Rightarrow> string" where
  "c_str str = takeWhile (\<lambda>c. c \<noteq> CHR 0x00) str"

text \<open>Modelled from the spec: \<^verbatim>\<open>BLI_strdup\<close> of the string library, which copies the
  C string it is given. The \<open>name\<close> of an entry is the C string that its \<^verbatim>\<open>char *\<close>
  points to, and \<^verbatim>\<open>cache_grid->name == name\<close> holds when these characters are the
  characters of the whole \<^verbatim>\<open>std::string\<close>.\<close>

definition BLI_strdup :: "string \<Rightarrow> string" where
  "BLI_strdup str = str"

text \<open>The scan of the list, \<^verbatim>\<open>LISTBASE_FOREACH\<close> with its early return: the position
  of the first entry of that name. A pointer to an entry is its position in the list,
  which only grows at its tail until the whole cache is cleared.\<close>

fun find_grid :: "string \<Rightarrow> DRWVolumeGrid list \<Rightarrow> nat option" where
  "find_grid nm [] = None"
| "find_grid nm (cache_grid # rest) =
     (if name cache_grid = nm then Some 0 else map_option Suc (find_grid nm rest))"

definition volume_grid_cache_get ::
  "Backend \<Rightarrow> VolumeGridData \<Rightarrow> VolumeBatchCache \<times> World \<Rightarrow> nat \<times> VolumeBatchCache \<times> World" where
  "volume_grid_cache_get be grid s =
     (let cache = fst s; w = snd s; nm = get_name grid in
      case find_grid nm (grids cache) of
        Some i \<Rightarrow> (i, cache, w)
      | None \<Rightarrow>
          let cache_grid = DRWVolumeGrid_zero\<lparr>name := BLI_strdup (c_str nm)\<rparr>;
              i = length (grids cache);
              w1 = BKE_volume_load w;
              channels = get_channels_num grid
          in if \<not> (channels = 1 \<or> channels = 3)
             then (i, cache\<lparr>grids := grids cache @ [cache_grid]\<rparr>, w1)
             else
               (case BKE_volume_grid_dense_floats be grid w1 of
                  (None, w2) \<Rightarrow> (i, cache\<lparr>grids := grids cache @ [cache_grid]\<rparr>, w2)
                | (Some dense_grid, w2) \<Rightarrow>
                    let cache_grid1 = cache_grid
                          \<lparr>texture_to_object := dense_texture_to_object dense_grid,
                           object_to_texture := invert be (dense_texture_to_object dense_grid)\<rparr>;
                        format = (if channels = 3 then SFLOAT_16_16_16 else SFLOAT_16)
                    in (case GPU_texture_create_3d be ''volume_grid'' (resolution dense_grid) 1
                               format (voxels dense_grid) w2 of
                          (Some t, w3) \<Rightarrow>
                            let w4 = GPU_texture_swizzle_set t
                                       (if channels = 3 then ''rgb1'' else ''rrr1'') w3;
                                w5 = GPU_texture_extend_mode t
                                       GPU_SAMPLER_EXTEND_MODE_CLAMP_TO_BORDER w4;
                                w6 = BKE_volume_dense_float_grid_clear dense_grid w5
                            in (i, cache\<lparr>grids := grids cache
                                         @ [cache_grid1\<lparr>texture := Some t\<rparr>]\<rparr>, w6)
                        | (None, w3) \<Rightarrow>
                            let w4 = MEM_freeN (voxels dense_grid) w3;
                                w5 = printf ''Error: Could not allocate 3D texture for volume.\<newline>'' w4
                            in (i, cache\<lparr>grids := grids cache @ [cache_grid1]\<rparr>, w5))))"

text \<open>\<open>volume_batch_cache_get\<close> validates, then reads the pointer, which
  validation has left non-null (lemma \<open>validate_cache_present\<close>); the null branch is
  there for totality only.\<close>

definition volume_batch_cache_get :: "Volume \<times> World \<Rightarrow> VolumeBatchCache \<times> Volume \<times> World" where
  "volume_batch_cache_get s =
     (let s1 = DRW_volume_batch_cache_validate s in
      case batch_cache (fst s1) of
        Some cache \<Rightarrow> (cache, s1)
      | None \<Rightarrow> (VolumeBatchCache_zero, s1))"

text \<open>The cache is reached through the volume's pointer; the entry returned is a position
  in the list of the cache that the returned volume holds.\<close>

definition DRW_volume_batch_cache_get_grid ::
  "Backend \<Rightarrow> VolumeGridData \<Rightarrow> Volume \<times> World \<Rightarrow> nat option \<times> Volume \<times> World" where
  "DRW_volume_batch_cache_get_grid be volume_grid s =
     (let cs = volume_batch_cache_get s;
          r = volume_grid_cache_get be volume_grid (fst cs, snd (snd cs));
          grid = fst r; cache1 = fst (snd r); w1 = snd (snd r);
          volume1 = (fst (snd cs))\<lparr>batch_cache := Some cache1\<rparr>
      in (if texture (grids cache1 ! grid) \<noteq> None then Some grid else None, volume1, w1))"

subsection \<open>Vertex buffers, index buffers and batches\<close>

text \<open>The builders of the GPU module, as far as the two geometry callbacks use them:
  each creation takes a fresh handle and enters the object in its table.\<close>

definition GPU_vertbuf_create_with_format :: "GPUVertFormat \<Rightarrow> World \<Rightarrow> handle \<times> World" where
  "GPU_vertbuf_create_with_format format w =
     (let hw = new_handle w; h = fst hw; w1 = snd hw in
      (h, w1\<lparr>vertbufs := (vertbufs w1)(h \<mapsto>
             \<lparr>vbo_format = format, vertex_len = 0, vbo_attrs = []\<rparr>)\<rparr>))"

definition GPU_vertbuf_calloc :: "World \<Rightarrow> handle \<times> World" where
  "GPU_vertbuf_calloc w = GPU_vertbuf_create_with_format [] w"

definition update_vertbuf :: "handle \<Rightarrow> (VertBuf \<Rightarrow> VertBuf) \<Rightarrow> World \<Rightarrow> World" where
  "update_vertbuf vbo f w =
     (case vertbufs w vbo of
        None \<Rightarrow> w
      | Some vb \<Rightarrow> w\<lparr>vertbufs := (vertbufs w)(vbo \<mapsto> f vb)\<rparr>)"

definition GPU_vertbuf_data_alloc :: "handle \<Rightarrow> nat \<Rightarrow> World \<Rightarrow> World" where
  "GPU_vertbuf_data_alloc vbo v_len w = update_vertbuf vbo (\<lambda>vb. vb\<lparr>vertex_len := v_len\<rparr>) w"

text \<open>Filling an attribute copies one value for each allocated vertex.\<close>

definition GPU_vertbuf_attr_fill :: "handle \<Rightarrow> nat \<Rightarrow> float3 list \<Rightarrow> World \<Rightarrow> World" where
  "GPU_vertbuf_attr_fill vbo a_idx data w =
     update_vertbuf vbo
       (\<lambda>vb. vb\<lparr>vbo_attrs := vbo_attrs vb @ [(a_idx, Attr_float3 (take (vertex_len vb) data))]\<rparr>) w"

definition GPU_vertbuf_attr_fill_stride ::
  "handle \<Rightarrow> nat \<Rightarrow> NormalPacking \<Rightarrow> float3 \<Rightarrow> World \<Rightarrow> World" where
  "GPU_vertbuf_attr_fill_stride vbo a_idx packing normal w =
     update_vertbuf vbo
       (\<lambda>vb. vb\<lparr>vbo_attrs := vbo_attrs vb @ [(a_idx, Attr_normal_stride0 packing normal)]\<rparr>) w"

definition DRW_vertbuf_create_wiredata :: "handle \<Rightarrow> nat \<Rightarrow> World \<Rightarrow> World" where
  "DRW_vertbuf_create_wiredata vbo vert_len w =
     update_vertbuf vbo
       (\<lambda>vb. \<lparr>vbo_format = [(''wd'', SFLOAT_32)], vertex_len = vert_len,
              vbo_attrs = [(0, Attr_wiredata_fill)]\<rparr>) w"

record GPUIndexBufBuilder =
  elb_prim_type :: GPUPrimType
  elb_max_index_len :: nat
  elb_max_allowed_index :: nat
  elb_data :: "32 word list"

definition verts_per_prim :: "GPUPrimType \<Rightarrow> nat" where
  "verts_per_prim prim = (case prim of GPU_PRIM_POINTS \<Rightarrow> 1 | GPU_PRIM_LINES \<Rightarrow> 2 | GPU_PRIM_TRIS \<Rightarrow> 3)"

definition GPU_indexbuf_init :: "GPUPrimType \<Rightarrow> nat \<Rightarrow> nat \<Rightarrow> GPUIndexBufBuilder" where
  "GPU_indexbuf_init prim prim_len vertex_len' =
     \<lparr>elb_prim_type = prim, elb_max_index_len = prim_len * verts_per_prim prim,
      elb_max_allowed_index = vertex_len' - 1, elb_data = []\<rparr>"

text \<open>The \<^verbatim>\<open>int\<close> indices of the traversal become the \<^verbatim>\<open>uint\<close> arguments of
  the builder.\<close>

definition GPU_indexbuf_add_line_verts :: "int \<Rightarrow> int \<Rightarrow> GPUIndexBufBuilder \<Rightarrow> GPUIndexBufBuilder" where
  "GPU_indexbuf_add_line_verts v1 v2 elb =
     elb\<lparr>elb_data := elb_data elb @ [word_of_int v1, word_of_int v2]\<rparr>"

definition GPU_indexbuf_add_tri_verts ::
  "int \<Rightarrow> int \<Rightarrow> int \<Rightarrow> GPUIndexBufBuilder \<Rightarrow> GPUIndexBufBuilder" where
  "GPU_indexbuf_add_tri_verts v1 v2 v3 elb =
     elb\<lparr>elb_data := elb_data elb @ [word_of_int v1, word_of_int v2, word_of_int v3]\<rparr>"

definition GPU_indexbuf_build :: "GPUIndexBufBuilder \<Rightarrow> World \<Rightarrow> handle \<times> World" where
  "GPU_indexbuf_build elb w =
     (let hw = new_handle w; h = fst hw; w1 = snd hw in
      (h, w1\<lparr>indexbufs := (indexbufs w1)(h \<mapsto>
             \<lparr>ibo_prim_type = elb_prim_type elb, ibo_indices = elb_data elb\<rparr>)\<rparr>))"

datatype GPUBatchFlag = GPU_BATCH_OWNS_VBO | GPU_BATCH_OWNS_INDEX

definition GPU_batch_create_ex ::
  "GPUPrimType \<Rightarrow> handle \<Rightarrow> handle option \<Rightarrow> GPUBatchFlag list \<Rightarrow> World \<Rightarrow> handle \<times> World" where
  "GPU_batch_create_ex prim vbo ibo owns_flag w =
     (let hw = new_handle w; h = fst hw; w1 = snd hw in
      (h, w1\<lparr>batches := (batches w1)(h \<mapsto>
             \<lparr>batch_prim_type = prim,
              batch_verts = [(vbo, GPU_BATCH_OWNS_VBO \<in> set owns_flag)],
              batch_elem = ibo,
              batch_owns_index = (GPU_BATCH_OWNS_INDEX \<in> set owns_flag)\<rparr>)\<rparr>))"

definition GPU_batch_create :: "GPUPrimType \<Rightarrow> handle \<Rightarrow> handle option \<Rightarrow> World \<Rightarrow> handle \<times> World" where
  "GPU_batch_create prim vbo ibo w = GPU_batch_create_ex prim vbo ibo [] w"

definition GPU_batch_vertbuf_add :: "handle \<Rightarrow> handle \<Rightarrow> bool \<Rightarrow> World \<Rightarrow> World" where
  "GPU_batch_vertbuf_add batch vbo own_vbo w =
     (case batches w batch of
        None \<Rightarrow> w
      | Some bt \<Rightarrow>
          w\<lparr>batches := (batches w)(batch \<mapsto> bt\<lparr>batch_verts := batch_verts bt @ [(vbo, own_vbo)]\<rparr>)\<rparr>)"

subsection \<open>The wireframe builder\<close>

definition format_pos_nor :: GPUVertFormat where
  "format_pos_nor = [(''pos'', SFLOAT_32_32_32), (''nor'', SNORM_10_10_10_2)]"

definition format_pos_nor_hq :: GPUVertFormat where
  "format_pos_nor_hq = [(''pos'', SFLOAT_32_32_32), (''nor'', SNORM_16_16_16_16)]"

text \<open>The callback of the wireframe traversal. \<open>verts\<close> and \<open>edges\<close> are the two arrays
  with their lengths \<open>totvert\<close> and \<open>totedge\<close>; \<open>pos\<close> is attribute 0 and \<open>nor\<close>
  attribute 1 in both formats. The callback writes through the volume's cache pointer,
  which its one caller has validated; on a null pointer the model leaves the state as it
  is.\<close>

definition drw_volume_wireframe_cb ::
  "Backend \<Rightarrow> float3 list \<Rightarrow> (int \<times> int) list \<Rightarrow> Volume \<times> World \<Rightarrow> Volume \<times> World" where
  "drw_volume_wireframe_cb be verts edges s =
     (let volume = fst s; w = snd s in
      case batch_cache volume of
        None \<Rightarrow> (volume, w)
      | Some cache \<Rightarrow>
          let totvert = length verts; totedge = length edges;
              hq = do_hq_normals be;
              pos_id = 0; nor_id = 1;
              vw = GPU_vertbuf_create_with_format (if hq then format_pos_nor_hq else format_pos_nor) w;
              pos_nor_in_order = fst vw;
              w1 = GPU_vertbuf_data_alloc pos_nor_in_order totvert (snd vw);
              w2 = GPU_vertbuf_attr_fill pos_nor_in_order pos_id verts w1;
              normal = (0x3F800000, 0, 0);
              w3 = GPU_vertbuf_attr_fill_stride pos_nor_in_order nor_id
                     (if hq then PackedNormal else Short4) normal w2;
              ww = GPU_vertbuf_calloc w3;
              vbo_wiredata = fst ww;
              w4 = DRW_vertbuf_create_wiredata vbo_wiredata totvert (snd ww);
              bw = (if display_wireframe_type volume = VOLUME_WIREFRAME_POINTS
                    then GPU_batch_create GPU_PRIM_POINTS pos_nor_in_order None w4
                    else
                      let elb = fold (\<lambda>e. GPU_indexbuf_add_line_verts (fst e) (snd e)) edges
                                  (GPU_indexbuf_init GPU_PRIM_LINES totedge totvert);
                          iw = GPU_indexbuf_build elb w4
                      in GPU_batch_create_ex GPU_PRIM_LINES pos_nor_in_order (Some (fst iw))
                           [GPU_BATCH_OWNS_INDEX] (snd iw));
              w5 = GPU_batch_vertbuf_add (fst bw) vbo_wiredata True (snd bw)
          in (volume\<lparr>batch_cache :=
                Some (cache\<lparr>face_wire_pos_nor_in_order := Some pos_nor_in_order,
                            face_wire_batch := Some (fst bw)\<rparr>)\<rparr>, w5))"

text \<open>Modelled from the spec: \<^verbatim>\<open>BKE_volume_grid_wireframe\<close> of the volume kernel,
  the tree traversal that invokes its callback with a flat vertex position array and an
  edge list.\<close>

definition BKE_volume_grid_wireframe ::
  "Backend \<Rightarrow> VolumeGridData \<Rightarrow> (float3 list \<Rightarrow> (int \<times> int) list \<Rightarrow> Volume \<times> World \<Rightarrow> Volume \<times> World)
     \<Rightarrow> Volume \<times> World \<Rightarrow> Volume \<times> World" where
  "BKE_volume_grid_wireframe be volume_grid cb s =
     cb (fst (wireframe be volume_grid)) (snd (wireframe be volume_grid))
        (fst s, log_call (Call_grid_wireframe (get_name volume_grid)) (snd s))"

definition cache_face_wire_batch :: "Volume \<Rightarrow> handle option" where
  "cache_face_wire_batch volume =
     (case batch_cache volume of None \<Rightarrow> None | Some cache \<Rightarrow> face_wire_batch cache)"

definition DRW_volume_batch_cache_get_wireframes_face ::
  "Backend \<Rightarrow> Volume \<times> World \<Rightarrow> handle option \<times> Volume \<times> World" where
  "DRW_volume_batch_cache_get_wireframes_face be s =
     (if display_wireframe_type (fst s) = VOLUME_WIREFRAME_NONE then (None, s)
      else
        let cs = volume_batch_cache_get s; cache = fst cs; s1 = snd cs in
        if face_wire_batch cache = None
        then (case BKE_volume_grid_active_get_for_read be (snd s1) of
                (None, w2) \<Rightarrow> (None, fst s1, w2)
              | (Some volume_grid, w2) \<Rightarrow>
                  let s3 = BKE_volume_grid_wireframe be volume_grid
                             (drw_volume_wireframe_cb be) (fst s1, w2)
                  in (cache_face_wire_batch (fst s3), s3))
        else (face_wire_batch cache, s1))"

subsection \<open>The selection surface builder\<close>

definition drw_volume_selection_surface_cb ::
  "float3 list \<Rightarrow> (int \<times> int \<times> int) list \<Rightarrow> Volume \<times> World \<Rightarrow> Volume \<times> World" where
  "drw_volume_selection_surface_cb verts tris s =
     (let volume = fst s; w = snd s in
      case batch_cache volume of
        None \<Rightarrow> (volume, w)
      | Some cache \<Rightarrow>
          let totvert = length verts; tottris = length tris;
              pos_id = 0;
              vw = GPU_vertbuf_create_with_format [(''pos'', SFLOAT_32_32_32)] w;
              vbo_surface = fst vw;
              w1 = GPU_vertbuf_data_alloc vbo_surface totvert (snd vw);
              w2 = GPU_vertbuf_attr_fill vbo_surface pos_id verts w1;
              elb = fold (\<lambda>t. GPU_indexbuf_add_tri_verts (fst t) (fst (snd t)) (snd (snd t))) tris
                      (GPU_indexbuf_init GPU_PRIM_TRIS tottris totvert);
              iw = GPU_indexbuf_build elb w2;
              bw = GPU_batch_create_ex GPU_PRIM_TRIS vbo_surface (Some (fst iw))
                     [GPU_BATCH_OWNS_VBO, GPU_BATCH_OWNS_INDEX] (snd iw)
          in (volume\<lparr>batch_cache := Some (cache\<lparr>selection_surface := Some (fst bw)\<rparr>)\<rparr>, snd bw))"

text \<open>Modelled from the spec: \<^verbatim>\<open>BKE_volume_grid_selection_surface\<close> of the volume
  kernel, the traversal that invokes its callback with vertex positions and a triangle
  index list.\<close>

definition BKE_volume_grid_selection_surface ::
  "Backend \<Rightarrow> VolumeGridData
     \<Rightarrow> (float3 list \<Rightarrow> (int \<times> int \<times> int) list \<Rightarrow> Volume \<times> World \<Rightarrow> Volume \<times> World)
     \<Rightarrow> Volume \<times> World \<Rightarrow> Volume \<times> World" where
  "BKE_volume_grid_selection_surface be volume_grid cb s =
     cb (fst (selection_surface_of be volume_grid)) (snd (selection_surface_of be volume_grid))
        (fst s, log_call (Call_grid_selection_surface (get_name volume_grid)) (snd s))"

definition cache_selection_surface :: "Volume \<Rightarrow> handle option" where
  "cache_selection_surface volume =
     (case batch_cache volume of None \<Rightarrow> None | Some cache \<Rightarrow> selection_surface cache)"

definition DRW_volume_batch_cache_get_selection_surface ::
  "Backend \<Rightarrow> Volume \<times> World \<Rightarrow> handle option \<times> Volume \<times> World" where
  "DRW_volume_batch_cache_get_selection_surface be s =
     (let cs = volume_batch_cache_get s; cache = fst cs; s1 = snd cs in
      if selection_surface cache = None
      then (case BKE_volume_grid_active_get_for_read be (snd s1) of
              (None, w2) \<Rightarrow> (None, fst s1, w2)
            | (Some volume_grid, w2) \<Rightarrow>
                let s3 = BKE_volume_grid_selection_surface be volume_grid
                           drw_volume_selection_surface_cb (fst s1, w2)
                in (cache_selection_surface (fst s3), s3))
      else (selection_surface cache, s1))"

subsection \<open>The states a volume's cache can be in\<close>

text \<open>A volume starts without a cache; from there the draw manager calls the exported
  functions in any order, with whatever the volume kernel answers at each call, and the
  user may change the wireframe display mode. The grids looked up have names without a
  NUL character.\<close>

inductive cache_reachable :: "Volume \<times> World \<Rightarrow> bool" where
  absent: "batch_cache volume = None \<Longrightarrow> cache_reachable (volume, w)"
| validate: "cache_reachable s \<Longrightarrow> cache_reachable (DRW_volume_batch_cache_validate s)"
| get_grid: "cache_reachable s \<Longrightarrow> CHR 0x00 \<notin> set (get_name volume_grid) \<Longrightarrow>
     cache_reachable (snd (DRW_volume_batch_cache_get_grid be volume_grid s))"
| get_wireframes_face: "cache_reachable s \<Longrightarrow>
     cache_reachable (snd (DRW_volume_batch_cache_get_wireframes_face be s))"
| get_selection_surface: "cache_reachable s \<Longrightarrow>
     cache_reachable (snd (DRW_volume_batch_cache_get_selection_surface be s))"
| dirty_tag: "cache_reachable (volume, w) \<Longrightarrow>
     DRW_volume_batch_cache_dirty_tag volume mode = Inr volume' \<Longrightarrow>
     cache_reachable (volume', w)"
| free: "cache_reachable s \<Longrightarrow> cache_reachable (DRW_volume_batch_cache_free s)"
| display: "cache_reachable (volume, w) \<Longrightarrow>
     cache_reachable (volume\<lparr>display_wireframe_type := t\<rparr>, w)"

subsection \<open>A small scene\<close>

text \<open>Concrete values on which the theorems below are exercised: grids of one, three
  and four channels, one too large for the device, whose 3D textures are at most 2048
  texels wide, a four-channel grid that shares the name of the one-channel grid, and a grid
  whose name holds a NUL character; a wireframe of four vertices and three edges; and a
  dirty cache that holds a texture, the wireframe batch and a selection surface.\<close>

definition example_world :: World where
  "example_world =
     \<lparr>textures = Map.empty, vertbufs = Map.empty, indexbufs = Map.empty, batches = Map.empty,
      guarded_mem = Map.empty, next_handle = 1, backend_calls = [], mem_frees = [], stdout = []\<rparr>"

definition example_volume :: Volume where
  "example_volume = \<lparr>batch_cache = None, display_wireframe_type = VOLUME_WIREFRAME_BOXES\<rparr>"

definition density_grid :: VolumeGridData where
  "density_grid = \<lparr>get_name = ''density'', get_channels_num = 1\<rparr>"

definition velocity_grid :: VolumeGridData where
  "velocity_grid = \<lparr>get_name = ''velocity'', get_channels_num = 3\<rparr>"

definition color_grid :: VolumeGridData where
  "color_grid = \<lparr>get_name = ''color'', get_channels_num = 4\<rparr>"

definition huge_grid :: VolumeGridData where
  "huge_grid = \<lparr>get_name = ''huge'', get_channels_num = 1\<rparr>"

definition density4_grid :: VolumeGridData where
  "density4_grid = \<lparr>get_name = ''density'', get_channels_num = 4\<rparr>"

definition nul_grid :: VolumeGridData where
  "nul_grid = \<lparr>get_name = [CHR ''a'', CHR 0x00, CHR ''b''], get_channels_num = 1\<rparr>"

definition example_backend :: Backend where
  "example_backend =
     \<lparr>grid_active = Some density_grid,
      dense_floats = (\<lambda>g. if get_name g = ''huge''
                           then Some ((4096, 1, 1), float4x4_zero, [])
                           else Some ((2, 1, 1), float4x4_zero,
                                      if get_channels_num g = 3
                                      then [0x3F800000, 0, 0, 0, 0x3F800000, 0]
                                      else [0x3F800000, 0x3F000000])),
      wireframe = (\<lambda>g. ([(0, 0, 0), (0x3F800000, 0, 0), (0x3F800000, 0x3F800000, 0),
                          (0, 0x3F800000, 0)],
                         [(0, 1), (1, 2), (2, 3)])),
      selection_surface_of = (\<lambda>g. ([(0, 0, 0), (0x3F800000, 0, 0), (0, 0x3F800000, 0)],
                                    [(0, 1, 2)])),
      texture_3d_fails = (\<lambda>res. 2048 < fst res \<or> 2048 < fst (snd res) \<or> 2048 < snd (snd res)),
      do_hq_normals = False,
      invert = (\<lambda>m. m)\<rparr>"

definition dirty_cache :: VolumeBatchCache where
  "dirty_cache =
     \<lparr>grids = [\<lparr>name = ''density'', texture = Some 2, texture_to_object = float4x4_zero,
                object_to_texture = float4x4_zero\<rparr>,
               \<lparr>name = ''color'', texture = None, texture_to_object = float4x4_zero,
                object_to_texture = float4x4_zero\<rparr>],
      face_wire_pos_nor_in_order = Some 3, face_wire_batch = Some 6,
      selection_surface = Some 9, is_dirty = True\<rparr>"

definition dirty_world :: World where
  "dirty_world =
     \<lparr>textures = [2 \<mapsto> \<lparr>tex_name = ''volume_grid'', tex_size = (2, 1, 1), tex_mip_len = 1,
                        tex_format = SFLOAT_16, tex_data = [0, 0], tex_swizzle = ''rrr1'',
                        tex_extend_mode = GPU_SAMPLER_EXTEND_MODE_CLAMP_TO_BORDER\<rparr>],
      vertbufs = [3 \<mapsto> \<lparr>vbo_format = format_pos_nor, vertex_len = 0, vbo_attrs = []\<rparr>,
                  4 \<mapsto> \<lparr>vbo_format = [(''wd'', SFLOAT_32)], vertex_len = 0, vbo_attrs = []\<rparr>,
                  7 \<mapsto> \<lparr>vbo_format = [(''pos'', SFLOAT_32_32_32)], vertex_len = 0, vbo_attrs = []\<rparr>],
      indexbufs = [5 \<mapsto> \<lparr>ibo_prim_type = GPU_PRIM_LINES, ibo_indices = []\<rparr>,
                   8 \<mapsto> \<lparr>ibo_prim_type = GPU_PRIM_TRIS, ibo_indices = []\<rparr>],
      batches = [6 \<mapsto> \<lparr>batch_prim_type = GPU_PRIM_LINES, batch_verts = [(3, False), (4, True)],
                       batch_elem = Some 5, batch_owns_index = True\<rparr>,
                 9 \<mapsto> \<lparr>batch_prim_type = GPU_PRIM_TRIS, batch_verts = [(7, True)],
                       batch_elem = Some 8, batch_owns_index = True\<rparr>],
      guarded_mem = Map.empty, next_handle = 10, backend_calls = [], mem_frees = [], stdout = []\<rparr>"

section \<open>Properties\<close>

lemmas example_defs = example_world_def example_volume_def density_grid_def velocity_grid_def
  color_grid_def huge_grid_def density4_grid_def nul_grid_def example_backend_def
  dirty_cache_def dirty_world_def

lemmas gate_eval_defs = DRW_volume_batch_cache_validate_def volume_batch_cache_valid_def
  volume_batch_cache_clear_def volume_batch_cache_init_def VolumeBatchCache_zero_def
  GPU_TEXTURE_FREE_SAFE_def GPU_texture_free_def GPU_VERTBUF_DISCARD_SAFE_def
  GPU_vertbuf_discard_def GPU_BATCH_DISCARD_SAFE_def GPU_batch_discard_def
  discard_owned_vbo_def GPU_indexbuf_discard_def Let_def

lemmas grid_eval_defs = DRW_volume_batch_cache_get_grid_def volume_batch_cache_get_def
  DRW_volume_batch_cache_validate_def volume_batch_cache_valid_def volume_batch_cache_clear_def
  volume_batch_cache_init_def VolumeBatchCache_zero_def DRWVolumeGrid_zero_def
  volume_grid_cache_get_def BLI_strdup_def c_str_def BKE_volume_load_def log_call_def Let_def
  BKE_volume_grid_dense_floats_def new_handle_def GPU_texture_create_3d_def
  GPU_texture_swizzle_set_def GPU_texture_extend_mode_def BKE_volume_dense_float_grid_clear_def
  MEM_freeN_def printf_def float4x4_zero_def

lemmas wire_eval_defs = DRW_volume_batch_cache_get_wireframes_face_def
  BKE_volume_grid_active_get_for_read_def BKE_volume_grid_wireframe_def
  cache_face_wire_batch_def drw_volume_wireframe_cb_def GPU_vertbuf_create_with_format_def
  GPU_vertbuf_calloc_def new_handle_def GPU_vertbuf_data_alloc_def update_vertbuf_def
  GPU_vertbuf_attr_fill_def GPU_vertbuf_attr_fill_stride_def DRW_vertbuf_create_wiredata_def
  GPU_indexbuf_init_def GPU_indexbuf_add_line_verts_def GPU_indexbuf_build_def
  GPU_batch_create_ex_def GPU_batch_create_def GPU_batch_vertbuf_add_def verts_per_prim_def
  log_call_def volume_batch_cache_get_def format_pos_nor_def format_pos_nor_hq_def

subsection \<open>The validity gate\<close>

lemma validate_valid_noop:
  "volume_batch_cache_valid (fst s) \<Longrightarrow> DRW_volume_batch_cache_validate s = s"
  by (simp add: DRW_volume_batch_cache_validate_def)

lemma init_cache: "batch_cache (volume_batch_cache_init v) = Some VolumeBatchCache_zero"
  by (simp add: volume_batch_cache_init_def VolumeBatchCache_zero_def split: option.splits)

lemma init_valid: "volume_batch_cache_valid (volume_batch_cache_init v)"
  by (simp add: volume_batch_cache_valid_def init_cache VolumeBatchCache_zero_def)

lemma validate_valid: "volume_batch_cache_valid (fst (DRW_volume_batch_cache_validate s))"
  by (simp add: DRW_volume_batch_cache_validate_def init_valid Let_def)

lemma validate_cache_present: "batch_cache (fst (DRW_volume_batch_cache_validate s)) \<noteq> None"
  using validate_valid [of s] by (auto simp: volume_batch_cache_valid_def split: option.splits)

lemma validate_display:
  "display_wireframe_type (fst (DRW_volume_batch_cache_validate s)) = display_wireframe_type (fst s)"
  by (simp add: DRW_volume_batch_cache_validate_def Let_def volume_batch_cache_init_def
      volume_batch_cache_clear_def split: option.splits)

lemma validate_grids:
  "batch_cache (fst (DRW_volume_batch_cache_validate s)) = Some c' \<Longrightarrow>
     grids c' = [] \<or> batch_cache (fst s) = Some c'"
  by (auto simp: DRW_volume_batch_cache_validate_def Let_def init_cache VolumeBatchCache_zero_def
      split: if_splits)

lemma batch_cache_get:
  "volume_batch_cache_get s = (c, s1) \<Longrightarrow>
     DRW_volume_batch_cache_validate s = s1 \<and> batch_cache (fst s1) = Some c \<and> \<not> is_dirty c"
  using validate_valid [of s]
  by (auto simp: volume_batch_cache_get_def Let_def volume_batch_cache_valid_def split: option.splits)

lemma batch_cache_get_valid:
  "batch_cache v = Some c \<Longrightarrow> \<not> is_dirty c \<Longrightarrow> volume_batch_cache_get (v, w) = (c, v, w)"
  by (simp add: volume_batch_cache_get_def Let_def validate_valid_noop volume_batch_cache_valid_def)

text \<open>
  Claim C3. Validating twice in a row changes nothing the second time. The first call
  leaves a valid cache, and on a valid cache validation returns the volume and the world
  (every table of GPU objects, every log) exactly as they were: nothing is released,
  allocated or removed.
\<close>

theorem validate_idempotent:
  "volume_batch_cache_valid (fst (DRW_volume_batch_cache_validate s)) \<and>
   DRW_volume_batch_cache_validate (DRW_volume_batch_cache_validate s)
     = DRW_volume_batch_cache_validate s \<and>
   (volume_batch_cache_valid (fst s) \<longrightarrow> DRW_volume_batch_cache_validate s = s)"
  using validate_valid [of s] validate_valid_noop by blast

text \<open>On the small scene: validating the dirty cache twice gives what validating it once
  gives, and the same cache with its flag cleared is left alone.\<close>

theorem validate_idempotent_witness:
  "volume_batch_cache_valid (fst (DRW_volume_batch_cache_validate
      (example_volume\<lparr>batch_cache := Some dirty_cache\<rparr>, dirty_world))) \<and>
   DRW_volume_batch_cache_validate (DRW_volume_batch_cache_validate
      (example_volume\<lparr>batch_cache := Some dirty_cache\<rparr>, dirty_world)) =
     (example_volume\<lparr>batch_cache := Some VolumeBatchCache_zero\<rparr>,
      dirty_world\<lparr>textures := Map.empty, vertbufs := Map.empty, indexbufs := Map.empty,
                   batches := Map.empty\<rparr>) \<and>
   volume_batch_cache_valid (example_volume\<lparr>batch_cache := Some (dirty_cache\<lparr>is_dirty := False\<rparr>)\<rparr>) \<and>
   DRW_volume_batch_cache_validate
      (example_volume\<lparr>batch_cache := Some (dirty_cache\<lparr>is_dirty := False\<rparr>)\<rparr>, dirty_world) =
      (example_volume\<lparr>batch_cache := Some (dirty_cache\<lparr>is_dirty := False\<rparr>)\<rparr>, dirty_world)"
  using validate_idempotent [of "(example_volume\<lparr>batch_cache := Some dirty_cache\<rparr>, dirty_world)"]
    validate_idempotent
      [of "(example_volume\<lparr>batch_cache := Some (dirty_cache\<lparr>is_dirty := False\<rparr>)\<rparr>, dirty_world)"]
  by (simp add: example_defs gate_eval_defs)

subsection \<open>Clearing a dirty cache\<close>

lemma fold_free_textures_None:
  "textures w t = None \<Longrightarrow>
     textures (fold (\<lambda>grid. GPU_TEXTURE_FREE_SAFE (texture grid)) gs w) t = None"
  by (induction gs arbitrary: w)
    (auto simp: GPU_TEXTURE_FREE_SAFE_def GPU_texture_free_def split: option.splits)

lemma fold_free_textures_tables:
  "vertbufs (fold (\<lambda>grid. GPU_TEXTURE_FREE_SAFE (texture grid)) gs w) = vertbufs w"
  "batches (fold (\<lambda>grid. GPU_TEXTURE_FREE_SAFE (texture grid)) gs w) = batches w"
  by (induction gs arbitrary: w;
      simp add: GPU_TEXTURE_FREE_SAFE_def GPU_texture_free_def split: option.splits)+

lemma fold_free_textures:
  "e \<in> set gs \<Longrightarrow> texture e = Some t \<Longrightarrow>
     textures (fold (\<lambda>grid. GPU_TEXTURE_FREE_SAFE (texture grid)) gs w) t = None"
proof (induction gs arbitrary: w)
  case Nil
  then show ?case by simp
next
  case (Cons g gs)
  show ?case
  proof (cases "e = g")
    case True
    then have "textures (GPU_TEXTURE_FREE_SAFE (texture g) w) t = None"
      using Cons.prems by (simp add: GPU_TEXTURE_FREE_SAFE_def GPU_texture_free_def)
    then show ?thesis by (simp add: fold_free_textures_None)
  next
    case False
    then show ?thesis using Cons by simp
  qed
qed

lemma fold_discard_owned:
  "textures (fold discard_owned_vbo vs w) = textures w"
  "indexbufs (fold discard_owned_vbo vs w) = indexbufs w"
  "batches (fold discard_owned_vbo vs w) = batches w"
  "vertbufs (fold discard_owned_vbo vs w) h =
     (if (h, True) \<in> set vs then None else vertbufs w h)"
  by (induction vs arbitrary: w; auto simp: discard_owned_vbo_def GPU_vertbuf_discard_def)+

lemma batch_discard_textures: "textures (GPU_batch_discard b w) = textures w"
  by (simp add: GPU_batch_discard_def Let_def fold_discard_owned GPU_indexbuf_discard_def
      split: option.splits)

lemma batch_discard_vertbufs: "vertbufs w h = None \<Longrightarrow> vertbufs (GPU_batch_discard b w) h = None"
  by (simp add: GPU_batch_discard_def Let_def fold_discard_owned GPU_indexbuf_discard_def
      split: option.splits)

lemma batch_discard_batches:
  "batches (GPU_batch_discard b w) h = (if h = b then None else batches w h)"
  by (simp add: GPU_batch_discard_def Let_def fold_discard_owned GPU_indexbuf_discard_def
      split: option.splits)

lemma BATCH_DISCARD_SAFE_textures: "textures (GPU_BATCH_DISCARD_SAFE p w) = textures w"
  by (simp add: GPU_BATCH_DISCARD_SAFE_def batch_discard_textures split: option.splits)

lemma BATCH_DISCARD_SAFE_vertbufs:
  "vertbufs w h = None \<Longrightarrow> vertbufs (GPU_BATCH_DISCARD_SAFE p w) h = None"
  by (simp add: GPU_BATCH_DISCARD_SAFE_def batch_discard_vertbufs split: option.splits)

lemma BATCH_DISCARD_SAFE_batches:
  "batches (GPU_BATCH_DISCARD_SAFE p w) h = (if p = Some h then None else batches w h)"
  by (auto simp add: GPU_BATCH_DISCARD_SAFE_def batch_discard_batches split: option.splits)

lemma VERTBUF_DISCARD_SAFE_tables:
  "textures (GPU_VERTBUF_DISCARD_SAFE p w) = textures w"
  "batches (GPU_VERTBUF_DISCARD_SAFE p w) = batches w"
  "vertbufs (GPU_VERTBUF_DISCARD_SAFE p w) h = (if p = Some h then None else vertbufs w h)"
  by (auto simp: GPU_VERTBUF_DISCARD_SAFE_def GPU_vertbuf_discard_def split: option.splits)

lemma clear_releases:
  assumes "batch_cache v = Some c"
  shows "volume_batch_cache_clear (v, w) = (v', w') \<Longrightarrow>
     (\<forall>e\<in>set (grids c). \<forall>t. texture e = Some t \<longrightarrow> textures w' t = None) \<and>
     (\<forall>h. face_wire_pos_nor_in_order c = Some h \<longrightarrow> vertbufs w' h = None) \<and>
     (\<forall>h. face_wire_batch c = Some h \<longrightarrow> batches w' h = None) \<and>
     (\<forall>h. selection_surface c = Some h \<longrightarrow> batches w' h = None)"
  using assms
  by (auto simp: volume_batch_cache_clear_def Let_def fold_free_textures fold_free_textures_tables
      BATCH_DISCARD_SAFE_batches BATCH_DISCARD_SAFE_vertbufs BATCH_DISCARD_SAFE_textures
      VERTBUF_DISCARD_SAFE_tables)

text \<open>
  Claim C2. On a volume whose cache exists and is dirty, validation leaves the zeroed cache
  (no entry, no geometry, dirty flag cleared), which is valid, and afterwards none of the
  resources the cache held is live: no texture of any grid entry, not the wireframe vertex
  buffer, not the wireframe batch, not the selection batch.
\<close>

theorem validate_dirty_releases_all:
  assumes "batch_cache v = Some c" and "is_dirty c"
  shows "case DRW_volume_batch_cache_validate (v, w) of (v', w') \<Rightarrow>
     batch_cache v' = Some VolumeBatchCache_zero \<and> volume_batch_cache_valid v' \<and>
     (\<forall>e\<in>set (grids c). \<forall>t. texture e = Some t \<longrightarrow> textures w' t = None) \<and>
     (\<forall>h. face_wire_pos_nor_in_order c = Some h \<longrightarrow> vertbufs w' h = None) \<and>
     (\<forall>h. face_wire_batch c = Some h \<longrightarrow> batches w' h = None) \<and>
     (\<forall>h. selection_surface c = Some h \<longrightarrow> batches w' h = None)"
proof -
  have inv: "\<not> volume_batch_cache_valid v"
    using assms by (simp add: volume_batch_cache_valid_def)
  obtain v1 w1 where cl: "volume_batch_cache_clear (v, w) = (v1, w1)"
    by (cases "volume_batch_cache_clear (v, w)")
  have val: "DRW_volume_batch_cache_validate (v, w) = (volume_batch_cache_init v1, w1)"
    using inv cl by (simp add: DRW_volume_batch_cache_validate_def)
  show ?thesis
    using clear_releases [OF assms(1) cl] by (simp add: val init_cache init_valid)
qed

text \<open>On the dirty cache of the small scene, validation empties all four tables of GPU
  objects, the buffers that the two batches own included.\<close>

theorem validate_dirty_releases_all_witness:
  "batch_cache (example_volume\<lparr>batch_cache := Some dirty_cache\<rparr>) = Some dirty_cache \<and>
   is_dirty dirty_cache \<and>
   DRW_volume_batch_cache_validate (example_volume\<lparr>batch_cache := Some dirty_cache\<rparr>, dirty_world) =
     (example_volume\<lparr>batch_cache := Some VolumeBatchCache_zero\<rparr>,
      dirty_world\<lparr>textures := Map.empty, vertbufs := Map.empty, indexbufs := Map.empty,
                   batches := Map.empty\<rparr>)"
  using validate_dirty_releases_all
    [of "example_volume\<lparr>batch_cache := Some dirty_cache\<rparr>" dirty_cache dirty_world]
  by (simp add: example_defs gate_eval_defs)

subsection \<open>The dirty tag\<close>

text \<open>
  Claim C10, as the code has it. With a cache present, the reason code
  \<open>BKE_VOLUME_BATCH_DIRTY_ALL\<close> sets the dirty flag and every other reason code fails the
  assertion. With no cache the function returns at once, whatever the reason code: nothing
  is set and nothing is asserted.
\<close>

theorem dirty_tag_behaviour:
  "(case batch_cache volume of
      None \<Rightarrow> DRW_volume_batch_cache_dirty_tag volume mode = Inr volume
    | Some cache \<Rightarrow>
        DRW_volume_batch_cache_dirty_tag volume BKE_VOLUME_BATCH_DIRTY_ALL =
          Inr (volume\<lparr>batch_cache := Some (cache\<lparr>is_dirty := True\<rparr>)\<rparr>) \<and>
        (mode \<noteq> BKE_VOLUME_BATCH_DIRTY_ALL \<longrightarrow>
           DRW_volume_batch_cache_dirty_tag volume mode = Inl Assertion_failed))"
  by (simp add: DRW_volume_batch_cache_dirty_tag_def split: option.splits)

theorem dirty_tag_behaviour_witness:
  "batch_cache (example_volume\<lparr>batch_cache := Some VolumeBatchCache_zero\<rparr>) = Some VolumeBatchCache_zero \<and>
   DRW_volume_batch_cache_dirty_tag (example_volume\<lparr>batch_cache := Some VolumeBatchCache_zero\<rparr>)
       BKE_VOLUME_BATCH_DIRTY_ALL =
     Inr (example_volume\<lparr>batch_cache := Some (VolumeBatchCache_zero\<lparr>is_dirty := True\<rparr>)\<rparr>) \<and>
   (1::int) \<noteq> BKE_VOLUME_BATCH_DIRTY_ALL \<and>
   DRW_volume_batch_cache_dirty_tag (example_volume\<lparr>batch_cache := Some VolumeBatchCache_zero\<rparr>) 1 =
     Inl Assertion_failed \<and>
   DRW_volume_batch_cache_dirty_tag example_volume BKE_VOLUME_BATCH_DIRTY_ALL = Inr example_volume"
  using dirty_tag_behaviour [of "example_volume\<lparr>batch_cache := Some VolumeBatchCache_zero\<rparr>" 1]
    dirty_tag_behaviour [of example_volume BKE_VOLUME_BATCH_DIRTY_ALL]
  by (simp add: example_volume_def BKE_VOLUME_BATCH_DIRTY_ALL_def)

text \<open>The claim as it was stated, for every volume, fails on a volume that has no cache:
  an unrecognised reason code returns normally there.\<close>

theorem dirty_tag_no_cache_no_assertion:
  "(1::int) \<noteq> BKE_VOLUME_BATCH_DIRTY_ALL \<and>
   batch_cache example_volume = None \<and>
   DRW_volume_batch_cache_dirty_tag example_volume 1 = Inr example_volume \<and>
   DRW_volume_batch_cache_dirty_tag example_volume 1 \<noteq> Inl Assertion_failed"
  by (simp add: DRW_volume_batch_cache_dirty_tag_def example_volume_def
      BKE_VOLUME_BATCH_DIRTY_ALL_def)

subsection \<open>Looking a grid up\<close>

lemma find_grid_Some:
  "find_grid nm gs = Some i \<Longrightarrow> i < length gs \<and> name (gs ! i) = nm"
  by (induction gs arbitrary: i) (auto split: if_splits)

lemma find_grid_None: "find_grid nm gs = None \<longleftrightarrow> nm \<notin> name ` set gs"
  by (induction gs) auto

lemma find_grid_append_new:
  "find_grid nm gs = None \<Longrightarrow> name e = nm \<Longrightarrow> find_grid nm (gs @ [e]) = Some (length gs)"
  by (induction gs) (auto split: if_splits)

lemma grid_cache_get_hit:
  "find_grid (get_name grid) (grids cache) = Some i \<Longrightarrow>
     volume_grid_cache_get be grid (cache, w) = (i, cache, w)"
  by (simp add: volume_grid_cache_get_def)

lemma c_str_id: "CHR 0x00 \<notin> set str \<Longrightarrow> c_str str = str"
  by (auto simp: c_str_def takeWhile_eq_all_conv)

lemma grid_cache_get_miss:
  assumes "find_grid (get_name grid) (grids cache) = None"
  shows "\<exists>e w'. volume_grid_cache_get be grid (cache, w) =
           (length (grids cache), cache\<lparr>grids := grids cache @ [e]\<rparr>, w') \<and>
           name e = c_str (get_name grid)"
  using assms
  by (auto simp: volume_grid_cache_get_def Let_def BLI_strdup_def split: option.splits prod.splits)

lemma grid_cache_get_index:
  assumes r: "volume_grid_cache_get be grid (cache, w) = (i, cache', w')"
  shows "i < length (grids cache') \<and> is_dirty cache' = is_dirty cache"
proof (cases "find_grid (get_name grid) (grids cache)")
  case None
  from grid_cache_get_miss [OF None, of be w] r
  obtain e where "i = length (grids cache)" "cache' = cache\<lparr>grids := grids cache @ [e]\<rparr>"
    by auto
  then show ?thesis by simp
next
  case (Some j)
  then show ?thesis using r find_grid_Some [OF Some] by (simp add: grid_cache_get_hit)
qed

lemma grid_cache_get_entry:
  assumes r: "volume_grid_cache_get be grid (cache, w) = (i, cache', w')"
    and nul: "CHR 0x00 \<notin> set (get_name grid)"
  shows "name (grids cache' ! i) = get_name grid \<and>
     find_grid (get_name grid) (grids cache') = Some i"
proof (cases "find_grid (get_name grid) (grids cache)")
  case None
  from grid_cache_get_miss [OF None, of be w] r
  obtain e where "i = length (grids cache)" "cache' = cache\<lparr>grids := grids cache @ [e]\<rparr>"
    "name e = c_str (get_name grid)" by auto
  then show ?thesis using None c_str_id [OF nul] by (simp add: find_grid_append_new)
next
  case (Some j)
  then show ?thesis using r find_grid_Some [OF Some] by (simp add: grid_cache_get_hit)
qed

lemma grid_cache_get_again:
  assumes "volume_grid_cache_get be grid (cache, w) = (i, cache', w')"
    and "CHR 0x00 \<notin> set (get_name grid)"
    and "get_name grid' = get_name grid"
  shows "volume_grid_cache_get be' grid' (cache', w') = (i, cache', w')"
  using grid_cache_get_entry [OF assms(1,2)] assms(3) by (simp add: grid_cache_get_hit)

lemma get_grid_unfold:
  assumes "volume_batch_cache_get s = (c, v, w)"
    and "volume_grid_cache_get be grid (c, w) = (i, c', w')"
  shows "DRW_volume_batch_cache_get_grid be grid s =
           (if texture (grids c' ! i) \<noteq> None then Some i else None,
            v\<lparr>batch_cache := Some c'\<rparr>, w')"
  using assms by (simp add: DRW_volume_batch_cache_get_grid_def Let_def)

lemma get_grid_again:
  assumes "CHR 0x00 \<notin> set (get_name grid)" and "get_name grid' = get_name grid"
  shows "DRW_volume_batch_cache_get_grid be' grid' (snd (DRW_volume_batch_cache_get_grid be grid s))
           = DRW_volume_batch_cache_get_grid be grid s"
proof -
  obtain c v w where g: "volume_batch_cache_get s = (c, v, w)"
    by (cases "volume_batch_cache_get s") auto
  obtain i c' w' where r: "volume_grid_cache_get be grid (c, w) = (i, c', w')"
    by (cases "volume_grid_cache_get be grid (c, w)") auto
  have clean: "\<not> is_dirty c'"
    using batch_cache_get [OF g] grid_cache_get_index [OF r] by simp
  have g': "volume_batch_cache_get (v\<lparr>batch_cache := Some c'\<rparr>, w')
              = (c', v\<lparr>batch_cache := Some c'\<rparr>, w')"
    using clean by (simp add: batch_cache_get_valid)
  have r': "volume_grid_cache_get be' grid' (c', w') = (i, c', w')"
    using grid_cache_get_again [OF r assms] .
  show ?thesis
    by (simp add: get_grid_unfold [OF g r] get_grid_unfold [OF g' r'])
qed

text \<open>
  Claim C1, as the code has it. \<open>volume_grid_cache_get\<close> returns the entry itself: the
  cached entry of that name, with cache and world untouched, or else the entry it has just
  appended at the tail, which is named by the C string of the grid's name (the name itself
  when it holds no NUL character). The exported \<open>DRW_volume_batch_cache_get_grid\<close> hands that entry
  on only when its texture is set and returns the null pointer otherwise; neither function
  has an error value.
\<close>

theorem get_grid_returns_entry_when_textured:
  assumes "volume_batch_cache_get s = (cache, volume, w)"
    and "volume_grid_cache_get be grid (cache, w) = (i, cache', w')"
  shows "i < length (grids cache') \<and>
     (case find_grid (get_name grid) (grids cache) of
        Some j \<Rightarrow> i = j \<and> cache' = cache \<and> w' = w \<and>
                 name (grids cache' ! i) = get_name grid
      | None \<Rightarrow> i = length (grids cache) \<and> butlast (grids cache') = grids cache \<and>
                length (grids cache') = Suc (length (grids cache)) \<and>
                name (grids cache' ! i) = c_str (get_name grid)) \<and>
     (CHR 0x00 \<notin> set (get_name grid) \<longrightarrow> name (grids cache' ! i) = get_name grid) \<and>
     DRW_volume_batch_cache_get_grid be grid s =
       (if texture (grids cache' ! i) \<noteq> None then Some i else None,
        volume\<lparr>batch_cache := Some cache'\<rparr>, w')"
proof -
  have a: "i < length (grids cache')"
    using grid_cache_get_index [OF assms(2)] by simp
  have b: "case find_grid (get_name grid) (grids cache) of
        Some j \<Rightarrow> i = j \<and> cache' = cache \<and> w' = w \<and>
                 name (grids cache' ! i) = get_name grid
      | None \<Rightarrow> i = length (grids cache) \<and> butlast (grids cache') = grids cache \<and>
                length (grids cache') = Suc (length (grids cache)) \<and>
                name (grids cache' ! i) = c_str (get_name grid)"
  proof (cases "find_grid (get_name grid) (grids cache)")
    case None
    from grid_cache_get_miss [OF None, of be w] assms(2) show ?thesis
      using None by auto
  next
    case (Some j)
    then show ?thesis using assms(2) find_grid_Some [OF Some] by (simp add: grid_cache_get_hit)
  qed
  have c: "name (grids cache' ! i) = get_name grid" if "CHR 0x00 \<notin> set (get_name grid)"
    using grid_cache_get_entry [OF assms(2) that] by simp
  show ?thesis using a b c get_grid_unfold [OF assms] by simp
qed

lemma example_density_state:
  "DRW_volume_batch_cache_get_grid example_backend density_grid (example_volume, example_world) =
     (Some 0,
      example_volume\<lparr>batch_cache := Some
        (VolumeBatchCache_zero\<lparr>grids := [DRWVolumeGrid_zero\<lparr>name := ''density'', texture := Some 2\<rparr>]\<rparr>)\<rparr>,
      example_world\<lparr>backend_calls := [Call_volume_load, Call_grid_dense_floats ''density''],
        next_handle := 3, mem_frees := [1],
        textures := [2 \<mapsto> \<lparr>tex_name = ''volume_grid'', tex_size = (2, 1, 1), tex_mip_len = 1,
                        tex_format = SFLOAT_16, tex_data = [0x3F800000, 0x3F000000],
                        tex_swizzle = ''rrr1'',
                        tex_extend_mode = GPU_SAMPLER_EXTEND_MODE_CLAMP_TO_BORDER\<rparr>]\<rparr>)"
  by (simp add: example_defs grid_eval_defs eval_nat_numeral)

text \<open>The one-channel grid of the small scene, looked up on a fresh volume: the entry is
  appended at position 0 with texture 2, and the exported function returns it.\<close>

theorem get_grid_returns_entry_when_textured_witness:
  "CHR 0x00 \<notin> set (get_name density_grid) \<and>
   find_grid (get_name density_grid) (grids VolumeBatchCache_zero) = None \<and>
   name (DRWVolumeGrid_zero\<lparr>name := ''density'', texture := Some 2\<rparr>) = get_name density_grid \<and>
   volume_batch_cache_get (example_volume, example_world) =
     (VolumeBatchCache_zero, example_volume\<lparr>batch_cache := Some VolumeBatchCache_zero\<rparr>,
      example_world) \<and>
   volume_grid_cache_get example_backend density_grid (VolumeBatchCache_zero, example_world) =
     (0, VolumeBatchCache_zero\<lparr>grids := [DRWVolumeGrid_zero\<lparr>name := ''density'', texture := Some 2\<rparr>]\<rparr>,
      snd (snd (DRW_volume_batch_cache_get_grid example_backend density_grid
                  (example_volume, example_world)))) \<and>
   DRW_volume_batch_cache_get_grid example_backend density_grid (example_volume, example_world) =
     (Some 0,
      example_volume\<lparr>batch_cache := Some
        (VolumeBatchCache_zero\<lparr>grids := [DRWVolumeGrid_zero\<lparr>name := ''density'', texture := Some 2\<rparr>]\<rparr>)\<rparr>,
      snd (snd (DRW_volume_batch_cache_get_grid example_backend density_grid
                  (example_volume, example_world))))"
  using get_grid_returns_entry_when_textured
    [of "(example_volume, example_world)" VolumeBatchCache_zero
      "example_volume\<lparr>batch_cache := Some VolumeBatchCache_zero\<rparr>" example_world
      example_backend density_grid 0
      "VolumeBatchCache_zero\<lparr>grids := [DRWVolumeGrid_zero\<lparr>name := ''density'', texture := Some 2\<rparr>]\<rparr>"
      "snd (snd (DRW_volume_batch_cache_get_grid example_backend density_grid
                  (example_volume, example_world)))"]
  by (simp add: example_defs grid_eval_defs eval_nat_numeral)

text \<open>The claim as it was stated, that the exported function returns the entry itself and
  the caller reads its texture field, fails on the four-channel grid: the entry is
  appended to the cache, with a null texture, and the function returns the null pointer.\<close>

theorem get_grid_null_on_textureless_entry:
  "DRW_volume_batch_cache_get_grid example_backend color_grid (example_volume, example_world) =
     (None,
      example_volume\<lparr>batch_cache := Some
        (VolumeBatchCache_zero\<lparr>grids := [DRWVolumeGrid_zero\<lparr>name := ''color''\<rparr>]\<rparr>)\<rparr>,
      example_world\<lparr>backend_calls := [Call_volume_load]\<rparr>)"
  by (simp add: example_defs grid_eval_defs)

subsection \<open>One entry for each name\<close>

lemma wireframe_cb_grids:
  "batch_cache (fst (drw_volume_wireframe_cb be verts edges (v, w))) = Some c' \<Longrightarrow>
     \<exists>c. batch_cache v = Some c \<and> grids c' = grids c"
  by (auto simp: drw_volume_wireframe_cb_def Let_def split: option.splits)

lemma selection_cb_grids:
  "batch_cache (fst (drw_volume_selection_surface_cb verts tris (v, w))) = Some c' \<Longrightarrow>
     \<exists>c. batch_cache v = Some c \<and> grids c' = grids c"
  by (auto simp: drw_volume_selection_surface_cb_def Let_def split: option.splits)

lemma get_wireframes_grids:
  assumes "batch_cache (fst (snd (DRW_volume_batch_cache_get_wireframes_face be s))) = Some c'"
  shows "(\<exists>c. batch_cache (fst s) = Some c \<and> grids c' = grids c) \<or> grids c' = []"
proof (cases "display_wireframe_type (fst s) = VOLUME_WIREFRAME_NONE")
  case True
  then show ?thesis using assms by (simp add: DRW_volume_batch_cache_get_wireframes_face_def)
next
  case False
  obtain c v w where g: "volume_batch_cache_get s = (c, v, w)"
    by (cases "volume_batch_cache_get s") auto
  note b = batch_cache_get [OF g]
  have "\<exists>c0. batch_cache v = Some c0 \<and> grids c' = grids c0"
    using assms False g
    by (auto simp: DRW_volume_batch_cache_get_wireframes_face_def Let_def
        BKE_volume_grid_active_get_for_read_def BKE_volume_grid_wireframe_def
        split: if_splits option.splits dest: wireframe_cb_grids)
  then show ?thesis using b validate_grids [of s] by auto
qed

lemma get_selection_grids:
  assumes "batch_cache (fst (snd (DRW_volume_batch_cache_get_selection_surface be s))) = Some c'"
  shows "(\<exists>c. batch_cache (fst s) = Some c \<and> grids c' = grids c) \<or> grids c' = []"
proof -
  obtain c v w where g: "volume_batch_cache_get s = (c, v, w)"
    by (cases "volume_batch_cache_get s") auto
  note b = batch_cache_get [OF g]
  have "\<exists>c0. batch_cache v = Some c0 \<and> grids c' = grids c0"
    using assms g
    by (auto simp: DRW_volume_batch_cache_get_selection_surface_def Let_def
        BKE_volume_grid_active_get_for_read_def BKE_volume_grid_selection_surface_def
        split: if_splits option.splits dest: selection_cb_grids)
  then show ?thesis using b validate_grids [of s] by auto
qed

lemma grid_cache_get_distinct:
  assumes "distinct (map name (grids c))" and nul: "CHR 0x00 \<notin> set (get_name grid)"
  shows "distinct (map name (grids (fst (snd (volume_grid_cache_get be grid (c, w))))))"
proof (cases "find_grid (get_name grid) (grids c)")
  case None
  from grid_cache_get_miss [OF None, of be w] obtain e w' where
    r: "volume_grid_cache_get be grid (c, w) = (length (grids c), c\<lparr>grids := grids c @ [e]\<rparr>, w')"
    and n: "name e = c_str (get_name grid)" by blast
  have "get_name grid \<notin> name ` set (grids c)" using None by (simp add: find_grid_None)
  then show ?thesis using assms n c_str_id [OF nul] by (simp add: r)
next
  case (Some i)
  then show ?thesis using assms by (simp add: grid_cache_get_hit)
qed

lemma get_grid_distinct:
  assumes "\<forall>c. batch_cache (fst s) = Some c \<longrightarrow> distinct (map name (grids c))"
    and "CHR 0x00 \<notin> set (get_name grid)"
    and "batch_cache (fst (snd (DRW_volume_batch_cache_get_grid be grid s))) = Some c'"
  shows "distinct (map name (grids c'))"
proof -
  obtain c v w where g: "volume_batch_cache_get s = (c, v, w)"
    by (cases "volume_batch_cache_get s") auto
  note b = batch_cache_get [OF g]
  have "distinct (map name (grids c))"
    using b validate_grids [of s c] assms(1) by auto
  from grid_cache_get_distinct [OF this assms(2), of be w]
  show ?thesis using assms(3) g
    by (simp add: DRW_volume_batch_cache_get_grid_def Let_def)
qed

lemma reachable_distinct:
  "cache_reachable s \<Longrightarrow> batch_cache (fst s) = Some c \<Longrightarrow> distinct (map name (grids c))"
proof (induction arbitrary: c rule: cache_reachable.induct)
  case (absent volume w)
  then show ?case by simp
next
  case (validate s)
  then show ?case using validate_grids [of s c] by auto
next
  case (get_grid s volume_grid be)
  then show ?case using get_grid_distinct [of s volume_grid be c] by blast
next
  case (get_wireframes_face s be)
  then show ?case using get_wireframes_grids [of be s c] by auto
next
  case (get_selection_surface s be)
  then show ?case using get_selection_grids [of be s c] by auto
next
  case (dirty_tag volume w mode volume')
  then show ?case
    by (auto simp: DRW_volume_batch_cache_dirty_tag_def split: option.splits if_splits)
next
  case (free s)
  then show ?case by (simp add: DRW_volume_batch_cache_free_def Let_def)
next
  case (display volume w t)
  then show ?case by simp
qed

text \<open>
  Claim C4, as the code has it. For a grid whose name holds no NUL character, a second
  lookup of a grid of the same name, right after the first, returns what the first returned
  (the same entry, hence the same texture handle) and leaves the volume and the world as
  the first left them: no kernel call, no allocation. And in every state that a volume's
  cache reaches through lookups of such names, the names of the entries are pairwise
  different.
\<close>

theorem get_grid_memoized_unique_names:
  "(CHR 0x00 \<notin> set (get_name grid) \<longrightarrow> get_name grid' = get_name grid \<longrightarrow>
      DRW_volume_batch_cache_get_grid be' grid' (snd (DRW_volume_batch_cache_get_grid be grid s))
        = DRW_volume_batch_cache_get_grid be grid s) \<and>
   (cache_reachable s \<longrightarrow> batch_cache (fst s) = Some cache \<longrightarrow>
      distinct (map name (grids cache)))"
  using get_grid_again reachable_distinct by blast

lemma example_two_grids_state:
  "batch_cache (fst (snd (DRW_volume_batch_cache_get_grid example_backend velocity_grid
      (snd (DRW_volume_batch_cache_get_grid example_backend density_grid
              (example_volume, example_world)))))) =
     Some (VolumeBatchCache_zero\<lparr>grids :=
             [DRWVolumeGrid_zero\<lparr>name := ''density'', texture := Some 2\<rparr>,
              DRWVolumeGrid_zero\<lparr>name := ''velocity'', texture := Some 4\<rparr>]\<rparr>)"
  by (simp add: example_density_state) (simp add: example_defs grid_eval_defs eval_nat_numeral)

text \<open>The one-channel grid looked up twice on a fresh volume, and the state after the
  lookups of two grids, whose cache holds two entries of different names.\<close>

theorem get_grid_memoized_unique_names_witness:
  "CHR 0x00 \<notin> set (get_name density_grid) \<and>
   get_name density_grid = get_name density_grid \<and>
   DRW_volume_batch_cache_get_grid example_backend density_grid
     (snd (DRW_volume_batch_cache_get_grid example_backend density_grid
             (example_volume, example_world)))
     = (Some 0,
      example_volume\<lparr>batch_cache := Some
        (VolumeBatchCache_zero\<lparr>grids := [DRWVolumeGrid_zero\<lparr>name := ''density'', texture := Some 2\<rparr>]\<rparr>)\<rparr>,
      example_world\<lparr>backend_calls := [Call_volume_load, Call_grid_dense_floats ''density''],
        next_handle := 3, mem_frees := [1],
        textures := [2 \<mapsto> \<lparr>tex_name = ''volume_grid'', tex_size = (2, 1, 1), tex_mip_len = 1,
                        tex_format = SFLOAT_16, tex_data = [0x3F800000, 0x3F000000],
                        tex_swizzle = ''rrr1'',
                        tex_extend_mode = GPU_SAMPLER_EXTEND_MODE_CLAMP_TO_BORDER\<rparr>]\<rparr>) \<and>
   cache_reachable (snd (DRW_volume_batch_cache_get_grid example_backend velocity_grid
      (snd (DRW_volume_batch_cache_get_grid example_backend density_grid
              (example_volume, example_world))))) \<and>
   map name [DRWVolumeGrid_zero\<lparr>name := ''density'', texture := Some 2\<rparr>,
             DRWVolumeGrid_zero\<lparr>name := ''velocity'', texture := Some 4\<rparr>]
     = [''density'', ''velocity''] \<and>
   distinct (map name [DRWVolumeGrid_zero\<lparr>name := ''density'', texture := Some 2\<rparr>,
                       DRWVolumeGrid_zero\<lparr>name := ''velocity'', texture := Some 4\<rparr>])"
proof -
  let ?s1 = "snd (DRW_volume_batch_cache_get_grid example_backend density_grid
                    (example_volume, example_world))"
  let ?s2 = "snd (DRW_volume_batch_cache_get_grid example_backend velocity_grid ?s1)"
  let ?c = "VolumeBatchCache_zero\<lparr>grids :=
             [DRWVolumeGrid_zero\<lparr>name := ''density'', texture := Some 2\<rparr>,
              DRWVolumeGrid_zero\<lparr>name := ''velocity'', texture := Some 4\<rparr>]\<rparr>"
  have n: "CHR 0x00 \<notin> set (get_name density_grid)" "CHR 0x00 \<notin> set (get_name velocity_grid)"
    by (simp_all add: density_grid_def velocity_grid_def)
  have r1: "cache_reachable ?s1"
    by (rule cache_reachable.get_grid, rule cache_reachable.absent)
      (simp_all add: example_volume_def n)
  have r: "cache_reachable ?s2"
    by (rule cache_reachable.get_grid [OF r1 n(2)])
  have b: "batch_cache (fst ?s2) = Some ?c"
    by (rule example_two_grids_state)
  from get_grid_memoized_unique_names
      [of density_grid density_grid example_backend example_backend
        "(example_volume, example_world)" ?c]
    get_grid_memoized_unique_names
      [of density_grid density_grid example_backend example_backend ?s2 ?c] r b n
  show ?thesis
    by (simp add: example_density_state VolumeBatchCache_zero_def DRWVolumeGrid_zero_def)
qed

text \<open>The claim as it was stated, for every grid name, fails on a name that holds a NUL
  character: the entry is stored under the C string of the name, here \<open>a\<close>, which the
  second lookup of the whole name does not match, so that the grid is built again and the
  cache holds two entries of one name, each with a texture of its own.\<close>

theorem get_grid_nul_name_not_memoized:
  "get_name nul_grid = [CHR ''a'', CHR 0x00, CHR ''b''] \<and>
   fst (DRW_volume_batch_cache_get_grid example_backend nul_grid (example_volume, example_world))
     = Some 0 \<and>
   fst (DRW_volume_batch_cache_get_grid example_backend nul_grid
     (snd (DRW_volume_batch_cache_get_grid example_backend nul_grid
             (example_volume, example_world))))
     = Some 1 \<and>
   batch_cache (fst (snd (DRW_volume_batch_cache_get_grid example_backend nul_grid
     (snd (DRW_volume_batch_cache_get_grid example_backend nul_grid
             (example_volume, example_world)))))) =
     Some (VolumeBatchCache_zero\<lparr>grids :=
             [DRWVolumeGrid_zero\<lparr>name := ''a'', texture := Some 2\<rparr>,
              DRWVolumeGrid_zero\<lparr>name := ''a'', texture := Some 4\<rparr>]\<rparr>) \<and>
   \<not> distinct (map name [DRWVolumeGrid_zero\<lparr>name := ''a'', texture := Some 2\<rparr>,
                         DRWVolumeGrid_zero\<lparr>name := ''a'', texture := Some 4\<rparr>]) \<and>
   backend_calls (snd (snd (DRW_volume_batch_cache_get_grid example_backend nul_grid
     (snd (DRW_volume_batch_cache_get_grid example_backend nul_grid
             (example_volume, example_world)))))) =
     [Call_volume_load, Call_grid_dense_floats [CHR ''a'', CHR 0x00, CHR ''b''],
      Call_volume_load, Call_grid_dense_floats [CHR ''a'', CHR 0x00, CHR ''b'']]"
  by (simp add: example_defs grid_eval_defs eval_nat_numeral)

subsection \<open>Building a texture\<close>

lemma dense_floats_Some:
  "dense_floats be grid = Some (res, t2o, vox) \<Longrightarrow>
   BKE_volume_grid_dense_floats be grid w =
     (Some \<lparr>resolution = res, dense_texture_to_object = t2o, voxels = next_handle w\<rparr>,
      w\<lparr>backend_calls := backend_calls w @ [Call_grid_dense_floats (get_name grid)],
        next_handle := Suc (next_handle w),
        guarded_mem := (guarded_mem w)(next_handle w \<mapsto> vox)\<rparr>)"
  by (simp add: BKE_volume_grid_dense_floats_def Let_def log_call_def new_handle_def)

lemma grid_cache_get_unsupported:
  assumes "get_channels_num grid \<noteq> 1" "get_channels_num grid \<noteq> 3"
    and "find_grid (get_name grid) (grids cache) = None"
  shows "volume_grid_cache_get be grid (cache, w) =
           (length (grids cache),
            cache\<lparr>grids := grids cache @ [DRWVolumeGrid_zero\<lparr>name := c_str (get_name grid)\<rparr>]\<rparr>,
            w\<lparr>backend_calls := backend_calls w @ [Call_volume_load]\<rparr>)"
  using assms
  by (simp add: volume_grid_cache_get_def Let_def BLI_strdup_def BKE_volume_load_def log_call_def)

text \<open>
  Claim C5, as the code has it. For a grid whose channel count is neither 1 nor 3 and of
  whose name no entry is cached, the lookup appends a zeroed entry, whose texture is null,
  and the only call into the volume kernel is the full load, so the dense-float conversion
  is never asked for, no texture is created and nothing is printed; the exported function
  returns the null pointer. When an entry of that name is cached, the lookup returns that
  entry as it is, whatever its texture, with no call at all. The lookup has no error
  result.
\<close>

theorem unsupported_channels_soft_miss:
  assumes "get_channels_num grid \<noteq> 1" and "get_channels_num grid \<noteq> 3"
  shows "case find_grid (get_name grid) (grids cache) of
      None \<Rightarrow>
        volume_grid_cache_get be grid (cache, w) =
           (length (grids cache),
            cache\<lparr>grids := grids cache @ [DRWVolumeGrid_zero\<lparr>name := c_str (get_name grid)\<rparr>]\<rparr>,
            w\<lparr>backend_calls := backend_calls w @ [Call_volume_load]\<rparr>) \<and>
        texture (DRWVolumeGrid_zero\<lparr>name := c_str (get_name grid)\<rparr>) = None \<and>
        (volume_batch_cache_get s = (cache, volume, w) \<longrightarrow>
           DRW_volume_batch_cache_get_grid be grid s =
             (None,
              volume\<lparr>batch_cache := Some
                (cache\<lparr>grids := grids cache @ [DRWVolumeGrid_zero\<lparr>name := c_str (get_name grid)\<rparr>]\<rparr>)\<rparr>,
              w\<lparr>backend_calls := backend_calls w @ [Call_volume_load]\<rparr>))
    | Some j \<Rightarrow> volume_grid_cache_get be grid (cache, w) = (j, cache, w)"
proof (cases "find_grid (get_name grid) (grids cache)")
  case None
  note r = grid_cache_get_unsupported [OF assms None, of be w]
  have t: "texture (DRWVolumeGrid_zero\<lparr>name := c_str (get_name grid)\<rparr>) = None"
    by (simp add: DRWVolumeGrid_zero_def)
  have "DRW_volume_batch_cache_get_grid be grid s =
              (None,
               volume\<lparr>batch_cache := Some
                 (cache\<lparr>grids := grids cache @ [DRWVolumeGrid_zero\<lparr>name := c_str (get_name grid)\<rparr>]\<rparr>)\<rparr>,
               w\<lparr>backend_calls := backend_calls w @ [Call_volume_load]\<rparr>)"
    if g: "volume_batch_cache_get s = (cache, volume, w)"
    using get_grid_unfold [OF g r] t by simp
  then show ?thesis using r t None by simp
next
  case (Some j)
  then show ?thesis by (simp add: grid_cache_get_hit)
qed

theorem unsupported_channels_soft_miss_witness:
  "get_channels_num color_grid \<noteq> 1 \<and> get_channels_num color_grid \<noteq> 3 \<and>
   find_grid (get_name color_grid) (grids VolumeBatchCache_zero) = None \<and>
   volume_batch_cache_get (example_volume, example_world) =
     (VolumeBatchCache_zero, example_volume\<lparr>batch_cache := Some VolumeBatchCache_zero\<rparr>,
      example_world) \<and>
   volume_grid_cache_get example_backend color_grid (VolumeBatchCache_zero, example_world) =
     (0, VolumeBatchCache_zero\<lparr>grids := [DRWVolumeGrid_zero\<lparr>name := ''color''\<rparr>]\<rparr>,
      example_world\<lparr>backend_calls := [Call_volume_load]\<rparr>) \<and>
   texture (DRWVolumeGrid_zero\<lparr>name := ''color''\<rparr>) = None \<and>
   DRW_volume_batch_cache_get_grid example_backend color_grid (example_volume, example_world) =
     (None,
      example_volume\<lparr>batch_cache := Some
        (VolumeBatchCache_zero\<lparr>grids := [DRWVolumeGrid_zero\<lparr>name := ''color''\<rparr>]\<rparr>)\<rparr>,
      example_world\<lparr>backend_calls := [Call_volume_load]\<rparr>)"
  using unsupported_channels_soft_miss
    [where grid = color_grid and cache = VolumeBatchCache_zero and be = example_backend
       and w = example_world and s = "(example_volume, example_world)"
       and volume = "example_volume\<lparr>batch_cache := Some VolumeBatchCache_zero\<rparr>"]
  by (simp add: example_defs grid_eval_defs)

text \<open>The claim as it was stated, for every grid of such a channel count, fails when an
  entry of the grid's name is cached with a texture: after the one-channel grid
  \<open>density\<close>, the lookup of a four-channel grid of the same name returns the entry of the
  first, with texture 2, and changes nothing.\<close>

theorem get_grid_unsupported_channels_cached_texture:
  "get_channels_num density4_grid = 4 \<and>
   get_name density4_grid = get_name density_grid \<and>
   DRW_volume_batch_cache_get_grid example_backend density4_grid
     (snd (DRW_volume_batch_cache_get_grid example_backend density_grid
             (example_volume, example_world)))
     = (Some 0,
      example_volume\<lparr>batch_cache := Some
        (VolumeBatchCache_zero\<lparr>grids := [DRWVolumeGrid_zero\<lparr>name := ''density'', texture := Some 2\<rparr>]\<rparr>)\<rparr>,
      example_world\<lparr>backend_calls := [Call_volume_load, Call_grid_dense_floats ''density''],
        next_handle := 3, mem_frees := [1],
        textures := [2 \<mapsto> \<lparr>tex_name = ''volume_grid'', tex_size = (2, 1, 1), tex_mip_len = 1,
                        tex_format = SFLOAT_16, tex_data = [0x3F800000, 0x3F000000],
                        tex_swizzle = ''rrr1'',
                        tex_extend_mode = GPU_SAMPLER_EXTEND_MODE_CLAMP_TO_BORDER\<rparr>]\<rparr>) \<and>
   texture (DRWVolumeGrid_zero\<lparr>name := ''density'', texture := Some 2\<rparr>) = Some 2"
  by (simp add: example_density_state) (simp add: example_defs grid_eval_defs eval_nat_numeral)

lemma grid_cache_get_texture_fails:
  assumes ch: "get_channels_num grid = 1 \<or> get_channels_num grid = 3"
    and miss: "find_grid (get_name grid) (grids cache) = None"
    and dense: "dense_floats be grid = Some (res, t2o, vox)"
    and fails: "texture_3d_fails be res"
  shows "volume_grid_cache_get be grid (cache, w) =
           (length (grids cache),
            cache\<lparr>grids := grids cache @
               [DRWVolumeGrid_zero\<lparr>name := c_str (get_name grid), texture_to_object := t2o,
                                   object_to_texture := invert be t2o\<rparr>]\<rparr>,
            w\<lparr>backend_calls := backend_calls w @
                 [Call_volume_load, Call_grid_dense_floats (get_name grid)],
              next_handle := Suc (next_handle w),
              guarded_mem := (guarded_mem w)(next_handle w := None),
              mem_frees := mem_frees w @ [next_handle w],
              stdout := stdout w @ [''Error: Could not allocate 3D texture for volume.\<newline>'']\<rparr>)"
  using ch miss fails
  by (auto simp add: volume_grid_cache_get_def Let_def BLI_strdup_def BKE_volume_load_def
      dense_floats_Some [OF dense] GPU_texture_create_3d_def MEM_freeN_def printf_def log_call_def)

lemma grid_cache_get_texture_ok:
  assumes ch: "get_channels_num grid = 1 \<or> get_channels_num grid = 3"
    and miss: "find_grid (get_name grid) (grids cache) = None"
    and dense: "dense_floats be grid = Some (res, t2o, vox)"
    and ok: "\<not> texture_3d_fails be res"
  shows "volume_grid_cache_get be grid (cache, w) =
           (length (grids cache),
            cache\<lparr>grids := grids cache @
               [DRWVolumeGrid_zero\<lparr>name := c_str (get_name grid), texture := Some (Suc (next_handle w)),
                                   texture_to_object := t2o,
                                   object_to_texture := invert be t2o\<rparr>]\<rparr>,
            w\<lparr>backend_calls := backend_calls w @
                 [Call_volume_load, Call_grid_dense_floats (get_name grid)],
              next_handle := Suc (Suc (next_handle w)),
              guarded_mem := (guarded_mem w)(next_handle w := None),
              mem_frees := mem_frees w @ [next_handle w],
              textures := (textures w)(Suc (next_handle w) \<mapsto>
                \<lparr>tex_name = ''volume_grid'', tex_size = res, tex_mip_len = 1,
                 tex_format = (if get_channels_num grid = 3 then SFLOAT_16_16_16 else SFLOAT_16),
                 tex_data = vox,
                 tex_swizzle = (if get_channels_num grid = 3 then ''rgb1'' else ''rrr1''),
                 tex_extend_mode = GPU_SAMPLER_EXTEND_MODE_CLAMP_TO_BORDER\<rparr>)\<rparr>)"
  using ch miss ok
  by (auto simp add: volume_grid_cache_get_def Let_def BLI_strdup_def BKE_volume_load_def
      dense_floats_Some [OF dense] GPU_texture_create_3d_def MEM_freeN_def log_call_def
      new_handle_def GPU_texture_swizzle_set_def GPU_texture_extend_mode_def
      BKE_volume_dense_float_grid_clear_def)

text \<open>
  Claim C6. For a grid of one or three channels that is not cached and that the kernel
  converts, when the device does not create the 3D texture: the lookup returns the new
  entry, whose texture is null, no texture exists that did not before, the voxel block
  that the conversion handed over is freed by exactly one \<open>MEM_freeN\<close> and is no longer
  live, and one line is printed. The exported function returns the null pointer. Nothing is
  raised: the lookup has no error result.
\<close>

theorem texture_failure_frees_voxels_once:
  assumes "get_channels_num grid = 1 \<or> get_channels_num grid = 3"
    and "find_grid (get_name grid) (grids cache) = None"
    and "dense_floats be grid = Some (res, t2o, vox)"
    and "texture_3d_fails be res"
  shows "case volume_grid_cache_get be grid (cache, w) of (i, cache', w') \<Rightarrow>
     i = length (grids cache) \<and>
     grids cache' = grids cache @
        [DRWVolumeGrid_zero\<lparr>name := c_str (get_name grid), texture_to_object := t2o,
                            object_to_texture := invert be t2o\<rparr>] \<and>
     texture (grids cache' ! i) = None \<and>
     textures w' = textures w \<and>
     fst (BKE_volume_grid_dense_floats be grid (BKE_volume_load w)) =
        Some \<lparr>resolution = res, dense_texture_to_object = t2o, voxels = next_handle w\<rparr> \<and>
     mem_frees w' = mem_frees w @ [next_handle w] \<and>
     guarded_mem w' = (guarded_mem w)(next_handle w := None) \<and>
     stdout w' = stdout w @ [''Error: Could not allocate 3D texture for volume.\<newline>''] \<and>
     backend_calls w' = backend_calls w @ [Call_volume_load, Call_grid_dense_floats (get_name grid)] \<and>
     (volume_batch_cache_get s = (cache, volume, w) \<longrightarrow>
        DRW_volume_batch_cache_get_grid be grid s = (None, volume\<lparr>batch_cache := Some cache'\<rparr>, w'))"
proof -
  note r = grid_cache_get_texture_fails [OF assms, of w]
  have t: "texture (DRWVolumeGrid_zero\<lparr>name := c_str (get_name grid), texture_to_object := t2o,
                            object_to_texture := invert be t2o\<rparr>) = None"
    by (simp add: DRWVolumeGrid_zero_def)
  have d: "fst (BKE_volume_grid_dense_floats be grid (BKE_volume_load w)) =
        Some \<lparr>resolution = res, dense_texture_to_object = t2o, voxels = next_handle w\<rparr>"
    by (simp add: dense_floats_Some [OF assms(3)] BKE_volume_load_def log_call_def)
  have g: "DRW_volume_batch_cache_get_grid be grid s =
      (None, volume\<lparr>batch_cache := Some (fst (snd (volume_grid_cache_get be grid (cache, w))))\<rparr>,
       snd (snd (volume_grid_cache_get be grid (cache, w))))"
    if g: "volume_batch_cache_get s = (cache, volume, w)"
    using get_grid_unfold [OF g r] t by (simp add: r)
  show ?thesis
    using g t d by (simp add: r)
qed


text \<open>The grid of the small scene that is 4096 texels wide, on a device limited to 2048.\<close>

theorem texture_failure_frees_voxels_once_witness:
  "(get_channels_num huge_grid = 1 \<or> get_channels_num huge_grid = 3) \<and>
   find_grid (get_name huge_grid) (grids VolumeBatchCache_zero) = None \<and>
   dense_floats example_backend huge_grid = Some ((4096, 1, 1), float4x4_zero, []) \<and>
   texture_3d_fails example_backend (4096, 1, 1) \<and>
   volume_grid_cache_get example_backend huge_grid (VolumeBatchCache_zero, example_world) =
     (0, VolumeBatchCache_zero\<lparr>grids := [DRWVolumeGrid_zero\<lparr>name := ''huge''\<rparr>]\<rparr>,
      example_world\<lparr>backend_calls := [Call_volume_load, Call_grid_dense_floats ''huge''],
        next_handle := 2, mem_frees := [1],
        stdout := [''Error: Could not allocate 3D texture for volume.\<newline>'']\<rparr>) \<and>
   fst (DRW_volume_batch_cache_get_grid example_backend huge_grid (example_volume, example_world)) = None"
  using texture_failure_frees_voxels_once
    [of huge_grid VolumeBatchCache_zero example_backend "(4096, 1, 1)" float4x4_zero "[]"
      example_world "(example_volume, example_world)"
      "example_volume\<lparr>batch_cache := Some VolumeBatchCache_zero\<rparr>"]
  by (simp add: example_defs grid_eval_defs eval_nat_numeral)

text \<open>
  Claim C7. For a grid that is not cached, that the kernel converts and for which the device
  creates the texture: the new entry points to a 3D texture of the grid's resolution that
  holds the voxel values, in format \<open>SFLOAT_16\<close> with swizzle \<open>rrr1\<close> for one channel
  and in format \<open>SFLOAT_16_16_16\<close> with swizzle \<open>rgb1\<close> for three, and that clamps to
  the border. The exported function returns that entry.
\<close>

theorem texture_format_by_channels:
  assumes "get_channels_num grid = 1 \<or> get_channels_num grid = 3"
    and "find_grid (get_name grid) (grids cache) = None"
    and "dense_floats be grid = Some (res, t2o, vox)"
    and "\<not> texture_3d_fails be res"
  shows "case volume_grid_cache_get be grid (cache, w) of (i, cache', w') \<Rightarrow>
     i = length (grids cache) \<and>
     texture (grids cache' ! i) = Some (Suc (next_handle w)) \<and>
     textures w' (Suc (next_handle w)) = Some
       \<lparr>tex_name = ''volume_grid'', tex_size = res, tex_mip_len = 1,
        tex_format = (if get_channels_num grid = 3 then SFLOAT_16_16_16 else SFLOAT_16),
        tex_data = vox,
        tex_swizzle = (if get_channels_num grid = 3 then ''rgb1'' else ''rrr1''),
        tex_extend_mode = GPU_SAMPLER_EXTEND_MODE_CLAMP_TO_BORDER\<rparr> \<and>
     mem_frees w' = mem_frees w @ [next_handle w] \<and>
     (volume_batch_cache_get s = (cache, volume, w) \<longrightarrow>
        DRW_volume_batch_cache_get_grid be grid s = (Some i, volume\<lparr>batch_cache := Some cache'\<rparr>, w'))"
proof -
  note r = grid_cache_get_texture_ok [OF assms, of w]
  have g: "DRW_volume_batch_cache_get_grid be grid s =
      (Some (length (grids cache)),
       volume\<lparr>batch_cache := Some (fst (snd (volume_grid_cache_get be grid (cache, w))))\<rparr>,
       snd (snd (volume_grid_cache_get be grid (cache, w))))"
    if g: "volume_batch_cache_get s = (cache, volume, w)"
    using get_grid_unfold [OF g r] by (simp add: r)
  show ?thesis
    using g by (simp add: r)
qed

text \<open>The three-channel and the one-channel grid of the small scene.\<close>

theorem texture_format_by_channels_witness:
  "(get_channels_num velocity_grid = 1 \<or> get_channels_num velocity_grid = 3) \<and>
   find_grid (get_name velocity_grid) (grids VolumeBatchCache_zero) = None \<and>
   dense_floats example_backend velocity_grid =
     Some ((2, 1, 1), float4x4_zero, [0x3F800000, 0, 0, 0, 0x3F800000, 0]) \<and>
   \<not> texture_3d_fails example_backend (2, 1, 1) \<and>
   volume_grid_cache_get example_backend velocity_grid (VolumeBatchCache_zero, example_world) =
     (0, VolumeBatchCache_zero\<lparr>grids := [DRWVolumeGrid_zero\<lparr>name := ''velocity'', texture := Some 2\<rparr>]\<rparr>,
      example_world\<lparr>backend_calls := [Call_volume_load, Call_grid_dense_floats ''velocity''],
        next_handle := 3, mem_frees := [1],
        textures := [2 \<mapsto> \<lparr>tex_name = ''volume_grid'', tex_size = (2, 1, 1), tex_mip_len = 1,
                        tex_format = SFLOAT_16_16_16,
                        tex_data = [0x3F800000, 0, 0, 0, 0x3F800000, 0],
                        tex_swizzle = ''rgb1'',
                        tex_extend_mode = GPU_SAMPLER_EXTEND_MODE_CLAMP_TO_BORDER\<rparr>]\<rparr>) \<and>
   fst (DRW_volume_batch_cache_get_grid example_backend density_grid (example_volume, example_world)) = Some 0 \<and>
   textures (snd (snd (DRW_volume_batch_cache_get_grid example_backend density_grid
       (example_volume, example_world)))) 2 =
     Some \<lparr>tex_name = ''volume_grid'', tex_size = (2, 1, 1), tex_mip_len = 1,
           tex_format = SFLOAT_16, tex_data = [0x3F800000, 0x3F000000],
           tex_swizzle = ''rrr1'',
           tex_extend_mode = GPU_SAMPLER_EXTEND_MODE_CLAMP_TO_BORDER\<rparr>"
  using texture_format_by_channels
    [of velocity_grid VolumeBatchCache_zero example_backend "(2, 1, 1)" float4x4_zero
      "[0x3F800000, 0, 0, 0, 0x3F800000, 0]" example_world "(example_volume, example_world)"
      "example_volume\<lparr>batch_cache := Some VolumeBatchCache_zero\<rparr>"]
    texture_format_by_channels
    [of density_grid VolumeBatchCache_zero example_backend "(2, 1, 1)" float4x4_zero
      "[0x3F800000, 0x3F000000]" example_world "(example_volume, example_world)"
      "example_volume\<lparr>batch_cache := Some VolumeBatchCache_zero\<rparr>"]
  by (simp add: example_defs grid_eval_defs eval_nat_numeral)

subsection \<open>The wireframe batch\<close>

text \<open>
  Claim C8. With the wireframe display mode \<open>VOLUME_WIREFRAME_NONE\<close> the function returns
  the null pointer and the state as it received it: the volume with its cache pointer
  (null, dirty or valid), every table of the world and every log, so that no call reached
  the volume kernel or the GPU module.
\<close>

theorem wireframes_none_untouched:
  "display_wireframe_type (fst s) = VOLUME_WIREFRAME_NONE \<Longrightarrow>
     DRW_volume_batch_cache_get_wireframes_face be s = (None, s)"
  by (simp add: DRW_volume_batch_cache_get_wireframes_face_def)

text \<open>A volume with a dirty cache and a volume without a cache.\<close>

theorem wireframes_none_untouched_witness:
  "display_wireframe_type (fst (\<lparr>batch_cache = Some dirty_cache,
       display_wireframe_type = VOLUME_WIREFRAME_NONE\<rparr>, dirty_world)) = VOLUME_WIREFRAME_NONE \<and>
   DRW_volume_batch_cache_get_wireframes_face example_backend
     (\<lparr>batch_cache = Some dirty_cache, display_wireframe_type = VOLUME_WIREFRAME_NONE\<rparr>, dirty_world) =
     (None, \<lparr>batch_cache = Some dirty_cache, display_wireframe_type = VOLUME_WIREFRAME_NONE\<rparr>,
      dirty_world) \<and>
   DRW_volume_batch_cache_get_wireframes_face example_backend
     (\<lparr>batch_cache = None, display_wireframe_type = VOLUME_WIREFRAME_NONE\<rparr>, example_world) =
     (None, \<lparr>batch_cache = None, display_wireframe_type = VOLUME_WIREFRAME_NONE\<rparr>, example_world)"
  using wireframes_none_untouched
    [of "(\<lparr>batch_cache = Some dirty_cache,
       display_wireframe_type = VOLUME_WIREFRAME_NONE\<rparr>, dirty_world)" example_backend]
    wireframes_none_untouched
    [of "(\<lparr>batch_cache = None, display_wireframe_type = VOLUME_WIREFRAME_NONE\<rparr>, example_world)"
      example_backend]
  by simp

lemma fold_add_line_verts:
  "fold (\<lambda>e. GPU_indexbuf_add_line_verts (fst e) (snd e)) edges elb =
     elb\<lparr>elb_data := elb_data elb
            @ concat (map (\<lambda>e. [word_of_int (fst e), word_of_int (snd e)]) edges)\<rparr>"
  by (induction edges arbitrary: elb) (simp_all add: GPU_indexbuf_add_line_verts_def)

lemma length_line_indices:
  "length (concat (map (\<lambda>e. [word_of_int (fst e) :: 32 word, word_of_int (snd e)]) edges))
     = 2 * length edges"
  by (induction edges) simp_all

lemma wireframe_cb_lines:
  assumes "batch_cache volume = Some cache"
    and "display_wireframe_type volume \<noteq> VOLUME_WIREFRAME_POINTS"
  shows "drw_volume_wireframe_cb be verts edges (volume, w) =
     (volume\<lparr>batch_cache := Some (cache\<lparr>face_wire_pos_nor_in_order := Some (next_handle w),
                                         face_wire_batch := Some (Suc (Suc (Suc (next_handle w))))\<rparr>)\<rparr>,
      w\<lparr>next_handle := Suc (Suc (Suc (Suc (next_handle w)))),
        vertbufs := (vertbufs w)
          (next_handle w \<mapsto>
             \<lparr>vbo_format = (if do_hq_normals be then format_pos_nor_hq else format_pos_nor),
              vertex_len = length verts,
              vbo_attrs = [(0, Attr_float3 verts),
                           (1, Attr_normal_stride0 (if do_hq_normals be then PackedNormal else Short4)
                                 (0x3F800000, 0, 0))]\<rparr>,
           Suc (next_handle w) \<mapsto>
             \<lparr>vbo_format = [(''wd'', SFLOAT_32)], vertex_len = length verts,
              vbo_attrs = [(0, Attr_wiredata_fill)]\<rparr>),
        indexbufs := (indexbufs w)
          (Suc (Suc (next_handle w)) \<mapsto>
             \<lparr>ibo_prim_type = GPU_PRIM_LINES,
              ibo_indices = concat (map (\<lambda>e. [word_of_int (fst e), word_of_int (snd e)]) edges)\<rparr>),
        batches := (batches w)
          (Suc (Suc (Suc (next_handle w))) \<mapsto>
             \<lparr>batch_prim_type = GPU_PRIM_LINES,
              batch_verts = [(next_handle w, False), (Suc (next_handle w), True)],
              batch_elem = Some (Suc (Suc (next_handle w))),
              batch_owns_index = True\<rparr>)\<rparr>)"
  using assms
  by (simp add: drw_volume_wireframe_cb_def Let_def GPU_vertbuf_create_with_format_def
      GPU_vertbuf_calloc_def new_handle_def GPU_vertbuf_data_alloc_def update_vertbuf_def
      GPU_vertbuf_attr_fill_def GPU_vertbuf_attr_fill_stride_def DRW_vertbuf_create_wiredata_def
      fold_add_line_verts GPU_indexbuf_init_def GPU_indexbuf_build_def GPU_batch_create_ex_def
      GPU_batch_vertbuf_add_def)

lemma get_wireframes_lines:
  assumes mode: "display_wireframe_type (fst s) \<noteq> VOLUME_WIREFRAME_NONE"
      "display_wireframe_type (fst s) \<noteq> VOLUME_WIREFRAME_POINTS"
    and active: "grid_active be = Some volume_grid"
    and trav: "wireframe be volume_grid = (verts, edges)"
    and g: "volume_batch_cache_get s = (cache, volume, w)"
    and nobatch: "face_wire_batch cache = None"
  shows "DRW_volume_batch_cache_get_wireframes_face be s =
     (Some (Suc (Suc (Suc (next_handle w)))),
      drw_volume_wireframe_cb be verts edges
        (volume, log_call (Call_grid_wireframe (get_name volume_grid))
                   (log_call Call_grid_active_get w)))"
proof -
  note b = batch_cache_get [OF g]
  have d: "display_wireframe_type volume = display_wireframe_type (fst s)"
    using validate_display [of s] b by simp
  have nh: "next_handle (log_call (Call_grid_wireframe (get_name volume_grid))
                   (log_call Call_grid_active_get w)) = next_handle w"
    by (simp add: log_call_def)
  show ?thesis
    using mode nobatch active trav b d
    by (simp add: DRW_volume_batch_cache_get_wireframes_face_def g
        BKE_volume_grid_active_get_for_read_def BKE_volume_grid_wireframe_def
        wireframe_cb_lines [of volume cache] nh cache_face_wire_batch_def)
qed

lemma get_wireframes_cached:
  assumes "display_wireframe_type volume \<noteq> VOLUME_WIREFRAME_NONE"
    and "batch_cache volume = Some cache" and "\<not> is_dirty cache"
    and "face_wire_batch cache = Some b"
  shows "DRW_volume_batch_cache_get_wireframes_face be (volume, w) = (Some b, volume, w)"
  using assms
  by (simp add: DRW_volume_batch_cache_get_wireframes_face_def batch_cache_get_valid)

text \<open>
  Claim C9. With a wireframe display mode other than none and points, an active grid whose
  traversal supplies the vertices \<open>verts\<close> and the edges \<open>edges\<close>, and no wireframe batch
  cached after validation: the function returns a new batch of line primitives that owns
  its index buffer; the index buffer holds the two indices of every edge, in the order of
  the edge list, so twice as many indices as there are edges; the vertex buffer of the batch
  has as many vertices as \<open>verts\<close> and holds them as its positions. Called again on the
  state it returned, the function returns the same batch and the same state.
\<close>

theorem wireframes_lines_batch:
  assumes "display_wireframe_type (fst s) \<noteq> VOLUME_WIREFRAME_NONE"
    and "display_wireframe_type (fst s) \<noteq> VOLUME_WIREFRAME_POINTS"
    and "grid_active be = Some volume_grid"
    and "wireframe be volume_grid = (verts, edges)"
    and "volume_batch_cache_get s = (cache, volume, w)"
    and "face_wire_batch cache = None"
  shows "case DRW_volume_batch_cache_get_wireframes_face be s of (r, volume', w') \<Rightarrow>
     r = Some (Suc (Suc (Suc (next_handle w)))) \<and>
     batches w' (Suc (Suc (Suc (next_handle w)))) = Some
       \<lparr>batch_prim_type = GPU_PRIM_LINES,
        batch_verts = [(next_handle w, False), (Suc (next_handle w), True)],
        batch_elem = Some (Suc (Suc (next_handle w))),
        batch_owns_index = True\<rparr> \<and>
     indexbufs w' (Suc (Suc (next_handle w))) = Some
       \<lparr>ibo_prim_type = GPU_PRIM_LINES,
        ibo_indices = concat (map (\<lambda>e. [word_of_int (fst e), word_of_int (snd e)]) edges)\<rparr> \<and>
     length (concat (map (\<lambda>e. [word_of_int (fst e) :: 32 word, word_of_int (snd e)]) edges))
       = 2 * length edges \<and>
     vertbufs w' (next_handle w) = Some
       \<lparr>vbo_format = (if do_hq_normals be then format_pos_nor_hq else format_pos_nor),
        vertex_len = length verts,
        vbo_attrs = [(0, Attr_float3 verts),
                     (1, Attr_normal_stride0 (if do_hq_normals be then PackedNormal else Short4)
                           (0x3F800000, 0, 0))]\<rparr> \<and>
     DRW_volume_batch_cache_get_wireframes_face be (volume', w') = (r, volume', w')"
proof -
  note b = batch_cache_get [OF assms(5)]
  have d: "display_wireframe_type volume = display_wireframe_type (fst s)"
    using validate_display [of s] b by simp
  let ?w1 = "log_call (Call_grid_wireframe (get_name volume_grid)) (log_call Call_grid_active_get w)"
  have nh: "next_handle ?w1 = next_handle w" "vertbufs ?w1 = vertbufs w"
    "indexbufs ?w1 = indexbufs w" "batches ?w1 = batches w"
    by (simp_all add: log_call_def)
  note r = get_wireframes_lines [OF assms]
  note cb = wireframe_cb_lines [of volume cache be verts edges ?w1]
  have cb': "drw_volume_wireframe_cb be verts edges (volume, ?w1) = 
     (volume\<lparr>batch_cache := Some (cache\<lparr>face_wire_pos_nor_in_order := Some (next_handle w),
                                         face_wire_batch := Some (Suc (Suc (Suc (next_handle w))))\<rparr>)\<rparr>,
      snd (drw_volume_wireframe_cb be verts edges (volume, ?w1)))"
    using cb b d assms(2) by (simp add: nh)
  have again: "DRW_volume_batch_cache_get_wireframes_face be
      (volume\<lparr>batch_cache := Some (cache\<lparr>face_wire_pos_nor_in_order := Some (next_handle w),
                                         face_wire_batch := Some (Suc (Suc (Suc (next_handle w))))\<rparr>)\<rparr>, w2)
     = (Some (Suc (Suc (Suc (next_handle w)))),
      volume\<lparr>batch_cache := Some (cache\<lparr>face_wire_pos_nor_in_order := Some (next_handle w),
                                         face_wire_batch := Some (Suc (Suc (Suc (next_handle w))))\<rparr>)\<rparr>, w2)" for w2
  proof (rule get_wireframes_cached)
    show "display_wireframe_type
           (volume\<lparr>batch_cache := Some (cache\<lparr>face_wire_pos_nor_in_order := Some (next_handle w),
                                         face_wire_batch := Some (Suc (Suc (Suc (next_handle w))))\<rparr>)\<rparr>)
          \<noteq> VOLUME_WIREFRAME_NONE"
      using d assms(1) by simp
    show "batch_cache
           (volume\<lparr>batch_cache := Some (cache\<lparr>face_wire_pos_nor_in_order := Some (next_handle w),
                                         face_wire_batch := Some (Suc (Suc (Suc (next_handle w))))\<rparr>)\<rparr>)
          = Some (cache\<lparr>face_wire_pos_nor_in_order := Some (next_handle w),
                        face_wire_batch := Some (Suc (Suc (Suc (next_handle w))))\<rparr>)"
      by simp
    show "\<not> is_dirty (cache\<lparr>face_wire_pos_nor_in_order := Some (next_handle w),
                        face_wire_batch := Some (Suc (Suc (Suc (next_handle w))))\<rparr>)"
      using b by simp
    show "face_wire_batch (cache\<lparr>face_wire_pos_nor_in_order := Some (next_handle w),
                        face_wire_batch := Some (Suc (Suc (Suc (next_handle w))))\<rparr>)
          = Some (Suc (Suc (Suc (next_handle w))))"
      by simp
  qed
  have len: "length (concat (map (\<lambda>e. [word_of_int (fst e) :: 32 word, word_of_int (snd e)]) edges))
       = 2 * length edges"
    using length_line_indices [of edges] .
  have tables: "batches (snd (drw_volume_wireframe_cb be verts edges (volume, ?w1)))
        (Suc (Suc (Suc (next_handle w)))) = Some
       \<lparr>batch_prim_type = GPU_PRIM_LINES,
        batch_verts = [(next_handle w, False), (Suc (next_handle w), True)],
        batch_elem = Some (Suc (Suc (next_handle w))),
        batch_owns_index = True\<rparr>"
     "indexbufs (snd (drw_volume_wireframe_cb be verts edges (volume, ?w1)))
        (Suc (Suc (next_handle w))) = Some
       \<lparr>ibo_prim_type = GPU_PRIM_LINES,
        ibo_indices = concat (map (\<lambda>e. [word_of_int (fst e), word_of_int (snd e)]) edges)\<rparr>"
     "vertbufs (snd (drw_volume_wireframe_cb be verts edges (volume, ?w1))) (next_handle w) = Some
       \<lparr>vbo_format = (if do_hq_normals be then format_pos_nor_hq else format_pos_nor),
        vertex_len = length verts,
        vbo_attrs = [(0, Attr_float3 verts),
                     (1, Attr_normal_stride0 (if do_hq_normals be then PackedNormal else Short4)
                           (0x3F800000, 0, 0))]\<rparr>"
    using cb b d assms(2) by (simp_all add: nh)
  show ?thesis
    apply (simp only: r)
    apply (subst cb')
    apply (simp only: prod.case)
    apply (intro conjI)
         apply (rule refl)
        apply (simp only: tables snd_conv)
       apply (simp only: tables snd_conv)
      apply (rule len)
     apply (simp only: tables snd_conv)
    apply (rule again)
    done
qed

text \<open>Four vertices and three edges: the batch is object 4, its index buffer holds the
  three segments 0-1, 1-2, 2-3, its vertex buffer four vertices.\<close>

theorem wireframes_lines_batch_witness:
  "display_wireframe_type (fst (example_volume, example_world)) \<noteq> VOLUME_WIREFRAME_NONE \<and>
   display_wireframe_type (fst (example_volume, example_world)) \<noteq> VOLUME_WIREFRAME_POINTS \<and>
   grid_active example_backend = Some density_grid \<and>
   length (fst (wireframe example_backend density_grid)) = 4 \<and>
   snd (wireframe example_backend density_grid) = [(0, 1), (1, 2), (2, 3)] \<and>
   volume_batch_cache_get (example_volume, example_world) =
     (VolumeBatchCache_zero, example_volume\<lparr>batch_cache := Some VolumeBatchCache_zero\<rparr>, example_world) \<and>
   face_wire_batch VolumeBatchCache_zero = None \<and>
   fst (DRW_volume_batch_cache_get_wireframes_face example_backend (example_volume, example_world))
     = Some 4 \<and>
   batches (snd (snd (DRW_volume_batch_cache_get_wireframes_face example_backend
       (example_volume, example_world)))) 4 =
     Some \<lparr>batch_prim_type = GPU_PRIM_LINES, batch_verts = [(1, False), (2, True)],
           batch_elem = Some 3, batch_owns_index = True\<rparr> \<and>
   indexbufs (snd (snd (DRW_volume_batch_cache_get_wireframes_face example_backend
       (example_volume, example_world)))) 3 =
     Some \<lparr>ibo_prim_type = GPU_PRIM_LINES, ibo_indices = [0, 1, 1, 2, 2, 3]\<rparr> \<and>
   map_option vertex_len (vertbufs (snd (snd (DRW_volume_batch_cache_get_wireframes_face
       example_backend (example_volume, example_world)))) 1) = Some 4 \<and>
   DRW_volume_batch_cache_get_wireframes_face example_backend
     (snd (DRW_volume_batch_cache_get_wireframes_face example_backend (example_volume, example_world)))
     = (Some 4, snd (DRW_volume_batch_cache_get_wireframes_face example_backend
                      (example_volume, example_world)))"
  using wireframes_lines_batch
    [of "(example_volume, example_world)" example_backend density_grid
      "fst (wireframe example_backend density_grid)" "[(0, 1), (1, 2), (2, 3)]"
      VolumeBatchCache_zero "example_volume\<lparr>batch_cache := Some VolumeBatchCache_zero\<rparr>"
      example_world]
  by (simp add: example_defs gate_eval_defs wire_eval_defs eval_nat_numeral)

end
